theory Spec2Isabelle
  imports Main "HOL-Library.AList"
begin

section \<open>JavaScript values and errors\<close>

text \<open>
  The TypeScript sources cast the results of \<^verbatim>\<open>JSON.parse\<close>, \<^verbatim>\<open>JSON5.parse\<close> and the TOML
  parser to interface types without checking them, so at run time every configuration and
  manifest is an arbitrary JavaScript value. The model keeps that: a value is a \<open>jsval\<close>, an
  object is the list of its own properties in insertion order, and every property access,
  truthiness test and object spread of the source is one of the functions below.
  Strings are lists of 8-bit characters. A finite number \<open>Finite m e\<close> is the double
  \<open>m * 2 ^ e\<close>; the program only tests numbers for truthiness.
\<close>

datatype number = Finite int int | NaN | PosInfinity | NegInfinity

datatype jsval =
    JUndefined
  | JNull
  | JBool bool
  | JNum number
  | JStr string
  | JArr "jsval list"
  | JObj "(string \<times> jsval) list"

datatype error =
    SyntaxError string
  | TypeError string
  | ENOENT string
  | ProcessExit int
  | CommandFailed int

text \<open>The truthiness of a value, as \<^verbatim>\<open>if (v)\<close>, \<^verbatim>\<open>v ? a : b\<close>, \<^verbatim>\<open>v || w\<close> and \<^verbatim>\<open>v && w\<close> test it.\<close>

fun truthy :: "jsval \<Rightarrow> bool" where
  "truthy JUndefined = False"
| "truthy JNull = False"
| "truthy (JBool b) = b"
| "truthy (JNum n) = (case n of Finite m e \<Rightarrow> m \<noteq> 0 | NaN \<Rightarrow> False | _ \<Rightarrow> True)"
| "truthy (JStr s) = (s \<noteq> [])"
| "truthy (JArr xs) = True"
| "truthy (JObj kvs) = True"

definition js_or :: "jsval \<Rightarrow> jsval \<Rightarrow> jsval" where
  "js_or a b = (if truthy a then a else b)"

text \<open>
  Member access \<^verbatim>\<open>v.k\<close>: a TypeError on \<^verbatim>\<open>undefined\<close> and \<^verbatim>\<open>null\<close>, the own property of an
  object, \<^verbatim>\<open>undefined\<close> otherwise. The sources only read the fixed keys \<^verbatim>\<open>package\<close>,
  \<^verbatim>\<open>productName\<close>, \<^verbatim>\<open>version\<close>, \<^verbatim>\<open>tauri\<close>, \<^verbatim>\<open>bundle\<close>, \<^verbatim>\<open>windows\<close>, \<^verbatim>\<open>wix\<close>, \<^verbatim>\<open>language\<close>,
  \<^verbatim>\<open>displayName\<close>, \<^verbatim>\<open>name\<close>, \<^verbatim>\<open>build\<close> and \<^verbatim>\<open>target-dir\<close>, none of which is an index, a
  \<^verbatim>\<open>length\<close> or a property inherited from a prototype of a parsed value.
\<close>

fun get_prop :: "jsval \<Rightarrow> string \<Rightarrow> error + jsval" where
  "get_prop JUndefined k = Inl (TypeError k)"
| "get_prop JNull k = Inl (TypeError k)"
| "get_prop (JObj kvs) k = Inr (case map_of kvs k of Some v \<Rightarrow> v | None \<Rightarrow> JUndefined)"
| "get_prop v k = Inr JUndefined"

text \<open>Optional chaining \<^verbatim>\<open>v?.k\<close>: \<^verbatim>\<open>undefined\<close> where \<^verbatim>\<open>v.k\<close> would throw.\<close>

fun get_prop_opt :: "jsval \<Rightarrow> string \<Rightarrow> jsval" where
  "get_prop_opt (JObj kvs) k = (case map_of kvs k of Some v \<Rightarrow> v | None \<Rightarrow> JUndefined)"
| "get_prop_opt v k = JUndefined"

text \<open>Decimal numerals, for the index keys of strings and arrays.\<close>

definition digits :: string where
  "digits = ''0123456789''"

fun show_nat :: "nat \<Rightarrow> string" where
  "show_nat n =
     (if n < 10 then [digits ! n]
      else show_nat (n div 10) @ [digits ! (n mod 10)])"

declare show_nat.simps [simp del]

definition indexed :: "jsval list \<Rightarrow> (string \<times> jsval) list" where
  "indexed xs = zip (map show_nat [0..<length xs]) xs"

text \<open>
  The own enumerable properties that \<^verbatim>\<open>{...v}\<close> copies: those of an object, the
  elements of an array and the characters of a string under their indices, nothing for
  \<^verbatim>\<open>undefined\<close>, \<^verbatim>\<open>null\<close>, booleans and numbers.
\<close>

fun spread :: "jsval \<Rightarrow> (string \<times> jsval) list" where
  "spread (JObj kvs) = kvs"
| "spread (JArr xs) = indexed xs"
| "spread (JStr s) = indexed (map (\<lambda>c. JStr [c]) s)"
| "spread v = []"

text \<open>
  Assignment \<^verbatim>\<open>v.k = x\<close> in strict mode (the sources are ES modules), for the keys
  \<^verbatim>\<open>package\<close> and \<^verbatim>\<open>tauri\<close> the sources assign: an object gets the property, in place when
  it has the key and appended otherwise; a primitive throws. An array accepts such a
  property too, but neither \<^verbatim>\<open>JSON.stringify\<close> nor any later read of the program observes it,
  so the array is returned as it is.
\<close>

fun set_prop :: "jsval \<Rightarrow> string \<Rightarrow> jsval \<Rightarrow> error + jsval" where
  "set_prop (JObj kvs) k x = Inr (JObj (AList.update k x kvs))"
| "set_prop (JArr xs) k x = Inr (JArr xs)"
| "set_prop v k x = Inl (TypeError k)"

section \<open>Strings\<close>

text \<open>\<^verbatim>\<open>s.startsWith(t)\<close>, \<^verbatim>\<open>s.endsWith(t)\<close> and \<^verbatim>\<open>s.includes(t)\<close>.\<close>

fun startsWith :: "string \<Rightarrow> string \<Rightarrow> bool" where
  "startsWith s [] = True"
| "startsWith [] (c # t) = False"
| "startsWith (a # s) (c # t) = (a = c \<and> startsWith s t)"

definition endsWith :: "string \<Rightarrow> string \<Rightarrow> bool" where
  "endsWith s t = startsWith (rev s) (rev t)"



text \<open>\<^verbatim>\<open>s.replace(/ /g, '-')\<close>: every space becomes a hyphen.\<close>

definition replace_spaces :: "string \<Rightarrow> string" where
  "replace_spaces s = map (\<lambda>c. if c = CHR '' '' then CHR ''-'' else c) s"

section \<open>Node's \<^verbatim>\<open>path\<close> module (POSIX)\<close>

text \<open>
  The sources import \<^verbatim>\<open>basename\<close>, \<^verbatim>\<open>extname\<close>, \<^verbatim>\<open>join\<close>, \<^verbatim>\<open>normalize\<close>, \<^verbatim>\<open>resolve\<close> and \<^verbatim>\<open>sep\<close>
  from Node's \<^verbatim>\<open>path\<close>. They are modelled for POSIX paths (\<^verbatim>\<open>sep = '/'\<close>), segment by
  segment, as Node's \<^verbatim>\<open>normalizeString\<close> treats them: empty and \<^verbatim>\<open>.\<close> segments are dropped,
  \<^verbatim>\<open>..\<close> removes the segment before it, and stays only in a relative path that has nothing
  left to remove.
\<close>

definition sep :: char where
  "sep = CHR ''/''"

fun split_sep :: "string \<Rightarrow> string list" where
  "split_sep [] = [[]]"
| "split_sep (c # cs) =
     (if c = sep then [] # split_sep cs
      else (case split_sep cs of [] \<Rightarrow> [[c]] | s # ss \<Rightarrow> (c # s) # ss))"

fun join_sep :: "string list \<Rightarrow> string" where
  "join_sep [] = []"
| "join_sep [s] = s"
| "join_sep (s # t # ss) = s @ sep # join_sep (t # ss)"

text \<open>One segment of \<^verbatim>\<open>normalizeString\<close>; the result so far is kept last segment first.\<close>

fun normalize_step :: "bool \<Rightarrow> string list \<Rightarrow> string \<Rightarrow> string list" where
  "normalize_step allowAboveRoot res seg =
     (if seg = [] \<or> seg = ''.'' then res
      else if seg = ''..'' then
        (case res of
           [] \<Rightarrow> if allowAboveRoot then [''..''] else []
         | s # ss \<Rightarrow>
             if s = ''..'' then (if allowAboveRoot then ''..'' # s # ss else s # ss)
             else ss)
      else seg # res)"

definition normalizeString :: "string \<Rightarrow> bool \<Rightarrow> string" where
  "normalizeString path allowAboveRoot =
     join_sep (rev (foldl (normalize_step allowAboveRoot) [] (split_sep path)))"

definition path_normalize :: "string \<Rightarrow> string" where
  "path_normalize path =
     (if path = [] then ''.''
      else
        let isAbsolute = (hd path = sep);
            trailingSeparator = (last path = sep);
            p = normalizeString path (\<not> isAbsolute)
        in if p = [] then
             (if isAbsolute then [sep] else if trailingSeparator then ''./'' else ''.'')
           else (if isAbsolute then [sep] else []) @ p @ (if trailingSeparator then [sep] else []))"

definition path_join :: "string list \<Rightarrow> string" where
  "path_join args =
     (case filter (\<lambda>a. a \<noteq> []) args of
        [] \<Rightarrow> ''.''
      | joined \<Rightarrow> path_normalize (join_sep joined))"

text \<open>
  \<^verbatim>\<open>resolve\<close> prepends its arguments from the right until one is absolute, the working
  directory last; \<open>resolve_prefix\<close> takes them rightmost first.
\<close>

fun resolve_prefix :: "string list \<Rightarrow> string \<Rightarrow> string \<times> bool" where
  "resolve_prefix [] resolvedPath = (resolvedPath, False)"
| "resolve_prefix (p # ps) resolvedPath =
     (if p = [] then resolve_prefix ps resolvedPath
      else if hd p = sep then (p @ sep # resolvedPath, True)
      else resolve_prefix ps (p @ sep # resolvedPath))"

definition path_resolve :: "string \<Rightarrow> string list \<Rightarrow> string" where
  "path_resolve cwd args =
     (case resolve_prefix (rev (cwd # args)) [] of
        (resolvedPath, resolvedAbsolute) \<Rightarrow>
          let p = normalizeString resolvedPath (\<not> resolvedAbsolute)
          in if resolvedAbsolute then sep # p else if p \<noteq> [] then p else ''.'')"



section \<open>Artifact names\<close>



section \<open>The environment: files, parsers, process state\<close>

text \<open>
  The file system is a map from paths to file contents, looked up under the path string
  the program passes. The parsers (\<^verbatim>\<open>JSON.parse\<close>, \<^verbatim>\<open>JSON5.parse\<close>, \<^verbatim>\<open>@iarna/toml\<close>), the
  serialiser \<^verbatim>\<open>JSON.stringify(_, null, 2)\<close>, the ignore-aware glob of \<^verbatim>\<open>glob-gitignore\<close>, the
  working directory, the process environment and the external commands that \<^verbatim>\<open>execa\<close> runs
  are libraries and process state the program is run with: they are the fields of \<open>sys\<close>,
  and every theorem holds for all of them. An external command \<open>execa w command args dir\<close>
  takes the file system to a new one and fails with an error or succeeds.
\<close>

type_synonym fs = "string \<rightharpoonup> string"

record sys =
  JSON_parse :: "string \<Rightarrow> error + jsval"
  JSON5_parse :: "string \<Rightarrow> error + jsval"
  parseToml :: "string \<Rightarrow> error + jsval"
  JSON_stringify :: "jsval \<Rightarrow> string"
  globSync :: "fs \<Rightarrow> string \<Rightarrow> string \<Rightarrow> string list \<Rightarrow> string list"
  cwd :: string
  env :: "string \<rightharpoonup> string"
  execa :: "string \<Rightarrow> jsval list \<Rightarrow> string \<Rightarrow> fs \<Rightarrow> error option \<times> fs"

definition existsSync :: "fs \<Rightarrow> string \<Rightarrow> bool" where
  "existsSync files path = (files path \<noteq> None)"

definition readFileSync :: "fs \<Rightarrow> string \<Rightarrow> error + string" where
  "readFileSync files path =
     (case files path of None \<Rightarrow> Inl (ENOENT path) | Some contents \<Rightarrow> Inr contents)"

section \<open>Discovery: \<^verbatim>\<open>utils.ts\<close>\<close>

definition getPackageJson :: "sys \<Rightarrow> fs \<Rightarrow> string \<Rightarrow> error + jsval" where
  "getPackageJson w files root =
     (let packageJsonPath = path_join [root, ''package.json'']
      in if existsSync files packageJsonPath then
           (case readFileSync files packageJsonPath of
              Inl e \<Rightarrow> Inl e
            | Inr packageJsonString \<Rightarrow> JSON_parse w packageJsonString)
         else Inr JNull)"

text \<open>
  \<open>globSync w files pattern root rules\<close> is the list of paths under \<open>root\<close> that match
  \<open>pattern\<close> and that the ignore rules (the lines added to \<^verbatim>\<open>ignore()\<close>) let through.
\<close>

definition getTauriDir :: "sys \<Rightarrow> fs \<Rightarrow> string \<Rightarrow> string option" where
  "getTauriDir w files root =
     (let gitignorePath = path_join [root, ''.gitignore''];
          ignoreRules =
            (case files gitignorePath of
               Some contents \<Rightarrow> [contents]
             | None \<Rightarrow> [''node_modules'', ''target'']);
          paths = globSync w files ''**/tauri.conf.json'' root ignoreRules
      in case paths of
           [] \<Rightarrow> None
         | tauriConfPath # _ \<Rightarrow>
             if tauriConfPath \<noteq> [] then Some (path_resolve (cwd w) [root, tauriConfPath, ''..''])
             else None)"

text \<open>
  The loop of \<^verbatim>\<open>getTargetDir\<close> walks from the crate directory towards the root, while the
  directory is not empty and does not end in the separator. Its body (lines 101 to 112) is
  \<open>cargoTargetDir\<close>: the outcome with which the loop returns at this directory, a thrown
  error or the \<^verbatim>\<open>target-dir\<close> of its configuration file, or \<open>None\<close> when the loop goes on to
  the parent. From a relative directory the parents are \<^verbatim>\<open>.\<close>, \<^verbatim>\<open>..\<close>, \<^verbatim>\<open>../..\<close> and so on,
  none of which ends the loop, so the loop is a partial function: \<open>None\<close> is the run that
  does not return.
\<close>


definition cargoTargetDir :: "sys \<Rightarrow> fs \<Rightarrow> string \<Rightarrow> (error + jsval) option" where
  "cargoTargetDir w files dir =
     (let cargoConfigPath0 = path_join [dir, ''.cargo/config''];
          cargoConfigPath =
            (if \<not> existsSync files cargoConfigPath0 then path_join [dir, ''.cargo/config.toml'']
             else cargoConfigPath0)
      in if existsSync files cargoConfigPath then
           (case readFileSync files cargoConfigPath of
              Inl e \<Rightarrow> Some (Inl e)
            | Inr contents \<Rightarrow>
                (case parseToml w contents of
                   Inl e \<Rightarrow> Some (Inl e)
                 | Inr cargoConfig \<Rightarrow>
                     (case get_prop cargoConfig ''build'' of
                        Inl e \<Rightarrow> Some (Inl e)
                      | Inr build \<Rightarrow>
                          if truthy (get_prop_opt build ''target-dir'')
                          then Some (get_prop build ''target-dir'')
                          else None)))
         else None)"

partial_function (option) targetDirLoop :: "sys \<Rightarrow> fs \<Rightarrow> string \<Rightarrow> string \<Rightarrow> (error + jsval) option" where
  "targetDirLoop w files def dir =
     (if dir \<noteq> [] \<and> last dir \<noteq> sep then
        (case cargoTargetDir w files dir of
           Some r \<Rightarrow> Some r
         | None \<Rightarrow> targetDirLoop w files def (path_normalize (path_join [dir, ''..''])))
      else Some (Inr (JStr def)))"

text \<open>
  \<^verbatim>\<open>process.env\<close> holds strings only, so \<^verbatim>\<open>process.env.CARGO_TARGET_DIR ?? def\<close> is the
  variable's value whenever the variable is in the environment.
\<close>

definition getTargetDir :: "sys \<Rightarrow> fs \<Rightarrow> string \<Rightarrow> (error + jsval) option" where
  "getTargetDir w files crateDir =
     (let def = path_join [crateDir, ''target'']
      in case env w ''CARGO_TARGET_DIR'' of
           Some v \<Rightarrow> Some (Inr (JStr v))
         | None \<Rightarrow> targetDirLoop w files def crateDir)"

text \<open>\<^verbatim>\<open>_getJson5Config\<close>: the relaxed parse, \<^verbatim>\<open>null\<close> when it throws.\<close>

definition getJson5Config :: "sys \<Rightarrow> string \<Rightarrow> jsval" where
  "getJson5Config w contents =
     (case JSON5_parse w contents of Inl e \<Rightarrow> JNull | Inr config \<Rightarrow> config)"

definition getConfig :: "sys \<Rightarrow> fs \<Rightarrow> string \<Rightarrow> error + jsval" where
  "getConfig w files path =
     (case readFileSync files path of
        Inl e \<Rightarrow> Inl e
      | Inr contents \<Rightarrow>
          (case JSON_parse w contents of
             Inr config \<Rightarrow> Inr config
           | Inl e \<Rightarrow>
               (let json5Conf = getJson5Config w contents
                in if json5Conf = JNull then
                     (case readFileSync files (path_join [path, ''..'', ''tauri.conf.json5'']) of
                        Inl e' \<Rightarrow> Inl e'
                      | Inr contents' \<Rightarrow>
                          (let json5Conf' = getJson5Config w contents'
                           in if truthy json5Conf' then Inr json5Conf' else Inl e))
                   else if truthy json5Conf then Inr json5Conf
                   else Inl e)))"

text \<open>The result record of \<^verbatim>\<open>getInfo\<close> (interface \<^verbatim>\<open>Info\<close>).\<close>

record Info =
  tauriPath :: "string option"
  name :: jsval
  version :: jsval
  wixLanguage :: jsval

text \<open>
  \<^verbatim>\<open>v?.endsWith('.json')\<close>: \<^verbatim>\<open>undefined\<close> (falsy) on \<^verbatim>\<open>undefined\<close> and \<^verbatim>\<open>null\<close>, the test on a
  string, and a TypeError on any other value, which has no method \<^verbatim>\<open>endsWith\<close>. The result
  is the string when the test holds, since only then is it used as a path.
\<close>

fun jsonPointer :: "jsval \<Rightarrow> error + string option" where
  "jsonPointer JUndefined = Inr None"
| "jsonPointer JNull = Inr None"
| "jsonPointer (JStr s) = Inr (if endsWith s ''.json'' then Some s else None)"
| "jsonPointer v = Inl (TypeError ''endsWith'')"

text \<open>Lines 190 to 198 of \<^verbatim>\<open>getInfo\<close>: name and version from the configuration.\<close>

definition configNameVersion :: "sys \<Rightarrow> fs \<Rightarrow> string \<Rightarrow> jsval \<Rightarrow> error + jsval \<times> jsval" where
  "configNameVersion w files tauriDir config =
     (case get_prop config ''package'' of
        Inl e \<Rightarrow> Inl e
      | Inr package \<Rightarrow>
          if truthy package then
            (case get_prop package ''productName'' of
               Inl e \<Rightarrow> Inl e
             | Inr name0 \<Rightarrow>
                 (case get_prop package ''version'' of
                    Inl e \<Rightarrow> Inl e
                  | Inr version0 \<Rightarrow>
                      (case jsonPointer version0 of
                         Inl e \<Rightarrow> Inl e
                       | Inr None \<Rightarrow> Inr (name0, version0)
                       | Inr (Some pointer) \<Rightarrow>
                           (let packageJsonPath = path_join [tauriDir, pointer]
                            in case readFileSync files packageJsonPath of
                                 Inl e \<Rightarrow> Inl e
                               | Inr contents \<Rightarrow>
                                   (case JSON_parse w contents of
                                      Inl e \<Rightarrow> Inl e
                                    | Inr parsed \<Rightarrow>
                                        (case get_prop parsed ''version'' of
                                           Inl e \<Rightarrow> Inl e
                                         | Inr version1 \<Rightarrow> Inr (name0, version1)))))))
          else Inr (JUndefined, JUndefined))"

text \<open>\<^verbatim>\<open>cargoManifest.package.k\<close>, evaluated only when the left operand of \<^verbatim>\<open>||\<close> is falsy.\<close>

definition manifestPackage :: "jsval \<Rightarrow> string \<Rightarrow> error + jsval" where
  "manifestPackage cargoManifest k =
     (case get_prop cargoManifest ''package'' of
        Inl e \<Rightarrow> Inl e
      | Inr package \<Rightarrow> get_prop package k)"

text \<open>Lines 199 to 206: the fallback to \<^verbatim>\<open>Cargo.toml\<close>.\<close>

definition manifestNameVersion :: "sys \<Rightarrow> fs \<Rightarrow> string \<Rightarrow> jsval \<times> jsval \<Rightarrow> error + jsval \<times> jsval" where
  "manifestNameVersion w files tauriDir nv =
     (case nv of (name0, version0) \<Rightarrow>
        if \<not> (truthy name0 \<and> truthy version0) then
          (let manifestPath = path_join [tauriDir, ''Cargo.toml'']
           in case readFileSync files manifestPath of
                Inl e \<Rightarrow> Inl e
              | Inr contents \<Rightarrow>
                  (case parseToml w contents of
                     Inl e \<Rightarrow> Inl e
                   | Inr cargoManifest \<Rightarrow>
                       (case (if truthy name0 then Inr name0
                              else manifestPackage cargoManifest ''name'') of
                          Inl e \<Rightarrow> Inl e
                        | Inr name1 \<Rightarrow>
                            (case (if truthy version0 then Inr version0
                                   else manifestPackage cargoManifest ''version'') of
                               Inl e \<Rightarrow> Inl e
                             | Inr version1 \<Rightarrow> Inr (name1, version1)))))
        else Inr (name0, version0))"

text \<open>\<^verbatim>\<open>t?.bundle?.windows?.wix?.language\<close> for \<^verbatim>\<open>t = config.tauri\<close>.\<close>

definition bundleWixLanguage :: "jsval \<Rightarrow> jsval" where
  "bundleWixLanguage t =
     get_prop_opt (get_prop_opt (get_prop_opt (get_prop_opt t ''bundle'') ''windows'') ''wix'')
       ''language''"

text \<open>
  \<^verbatim>\<open>v.replace(/ /g, '-')\<close>: defined on strings; \<^verbatim>\<open>undefined\<close> and \<^verbatim>\<open>null\<close> have no properties
  and no other parsed value has a method \<^verbatim>\<open>replace\<close>, so the call throws a TypeError.
\<close>

fun replaceSpacesOf :: "jsval \<Rightarrow> error + jsval" where
  "replaceSpacesOf (JStr s) = Inr (JStr (replace_spaces s))"
| "replaceSpacesOf v = Inl (TypeError ''replace'')"

text \<open>Lines 223 to 234: no native project, the JavaScript manifest alone.\<close>

definition packageJsonInfo :: "jsval \<Rightarrow> error + Info" where
  "packageJsonInfo packageJson =
     (case (if truthy packageJson then
              (case get_prop packageJson ''displayName'' of
                 Inl e \<Rightarrow> Inl e
               | Inr displayName \<Rightarrow>
                   if truthy displayName then replaceSpacesOf displayName
                   else (case get_prop packageJson ''name'' of
                           Inl e \<Rightarrow> Inl e
                         | Inr n \<Rightarrow> replaceSpacesOf n))
            else Inr (JStr ''app'')) of
        Inl e \<Rightarrow> Inl e
      | Inr appName \<Rightarrow>
          (case (if truthy packageJson then get_prop packageJson ''version''
                 else Inr (JStr ''0.1.0'')) of
             Inl e \<Rightarrow> Inl e
           | Inr version0 \<Rightarrow>
               Inr \<lparr>tauriPath = None, name = appName, version = version0,
                    wixLanguage = JStr ''en-US''\<rparr>))"

definition getInfo :: "sys \<Rightarrow> fs \<Rightarrow> string \<Rightarrow> string option \<Rightarrow> error + Info" where
  "getInfo w files root inConfigPath =
     (case getTauriDir w files root of
        Some tauriDir \<Rightarrow>
          (let configPath =
                 (case inConfigPath of
                    Some p \<Rightarrow> p
                  | None \<Rightarrow> path_join [tauriDir, ''tauri.conf.json''])
           in case getConfig w files configPath of
                Inl e \<Rightarrow> Inl e
              | Inr config \<Rightarrow>
                  (case configNameVersion w files tauriDir config of
                     Inl e \<Rightarrow> Inl e
                   | Inr nv \<Rightarrow>
                       (case manifestNameVersion w files tauriDir nv of
                          Inl e \<Rightarrow> Inl e
                        | Inr (name1, version1) \<Rightarrow>
                            (case get_prop config ''tauri'' of
                               Inl e \<Rightarrow> Inl e
                             | Inr t \<Rightarrow>
                                 (let wixLanguage0 =
                                        (if truthy (bundleWixLanguage t) then bundleWixLanguage t
                                         else JStr ''en-US'')
                                  in if \<not> (truthy name1 \<and> truthy version1)
                                     then Inl (ProcessExit 1)
                                     else Inr \<lparr>tauriPath = Some tauriDir, name = name1,
                                               version = version1,
                                               wixLanguage = wixLanguage0\<rparr>)))))
      | None \<Rightarrow>
          (case getPackageJson w files root of
             Inl e \<Rightarrow> Inl e
           | Inr packageJson \<Rightarrow> packageJsonInfo packageJson))"

section \<open>Initialisation: \<^verbatim>\<open>init-project.ts\<close>\<close>

record Runner =
  runnerCommand :: string
  runnerArgs :: "string list"

record BuildOptions =
  configPath :: "string option"
  distPath :: "string option"
  iconPath :: "string option"
  tauriScript :: "string option"
  args :: "string list option"
  bundleIdentifier :: "string option"

record Application =
  app_tauriPath :: string
  app_runner :: Runner
  app_name :: jsval
  app_version :: jsval
  app_wixLanguage :: jsval

definition execCommand :: "sys \<Rightarrow> string \<Rightarrow> jsval list \<Rightarrow> string \<Rightarrow> fs \<Rightarrow> error option \<times> fs" where
  "execCommand w command arguments dir files = execa w command arguments dir files"

text \<open>
  An option of type \<^verbatim>\<open>string | null\<close> is truthy when it is a non-empty string: \<open>supplied\<close>
  is that string, and \<open>None\<close> for \<^verbatim>\<open>null\<close> and for the empty string.
\<close>

fun supplied :: "string option \<Rightarrow> string option" where
  "supplied None = None"
| "supplied (Some s) = (if s = [] then None else Some s)"

text \<open>
  Lines 35 to 58 of \<^verbatim>\<open>initProject\<close>: the configuration that is written back.
  \<^verbatim>\<open>{...a, k: x}\<close> copies the own properties of \<^verbatim>\<open>a\<close> and sets \<^verbatim>\<open>k\<close>, in place when \<^verbatim>\<open>a\<close> has
  it and appended otherwise.
\<close>

definition mergeConfig :: "jsval \<Rightarrow> Info \<Rightarrow> string option \<Rightarrow> jsval \<Rightarrow> error + jsval" where
  "mergeConfig packageJson info bundleId config =
     (case get_prop config ''package'' of
        Inl e \<Rightarrow> Inl e
      | Inr package \<Rightarrow>
          (let pkgConfig0 = AList.update ''version'' (version info) (spread package);
               pkgConfig =
                 (if truthy (get_prop_opt packageJson ''productName'')
                  then AList.update ''productName'' (get_prop_opt packageJson ''productName'')
                         pkgConfig0
                  else pkgConfig0)
           in case set_prop config ''package'' (JObj pkgConfig) of
                Inl e \<Rightarrow> Inl e
              | Inr config1 \<Rightarrow>
                  (case supplied bundleId of
                     Some b \<Rightarrow>
                       (case get_prop config1 ''tauri'' of
                          Inl e \<Rightarrow> Inl e
                        | Inr t \<Rightarrow>
                            set_prop config1 ''tauri''
                              (JObj (AList.update ''bundle''
                                 (JObj (AList.update ''identifier'' (JStr b)
                                    (spread (get_prop_opt t ''bundle''))))
                                 (spread t))))
                   | None \<Rightarrow> Inr config1)))"

definition initProject ::
  "sys \<Rightarrow> fs \<Rightarrow> string \<Rightarrow> Runner \<Rightarrow> Info \<Rightarrow> BuildOptions \<Rightarrow> (error + Application) \<times> fs" where
  "initProject w files root runner info options =
     (case getPackageJson w files root of
        Inl e \<Rightarrow> (Inl e, files)
      | Inr packageJson \<Rightarrow>
          (let tauriPath0 = getTauriDir w files root
           in case execCommand w (runnerCommand runner)
                     (map JStr (runnerArgs runner) @
                      [JStr ''init'', JStr ''--ci'', JStr ''--app-name'', name info])
                     root files of
                (Some e, files1) \<Rightarrow> (Inl e, files1)
              | (None, files1) \<Rightarrow>
                  (case tauriPath0 of
                     None \<Rightarrow> (Inl (ProcessExit 1), files1)
                   | Some tauriDir \<Rightarrow>
                       (let confPath = path_join [tauriDir, ''tauri.conf.json'']
                        in case getConfig w files1 confPath of
                             Inl e \<Rightarrow> (Inl e, files1)
                           | Inr config \<Rightarrow>
                               (case mergeConfig packageJson info (bundleIdentifier options)
                                       config of
                                  Inl e \<Rightarrow> (Inl e, files1)
                                | Inr merged \<Rightarrow>
                                    (let files2 = files1(confPath \<mapsto> JSON_stringify w merged);
                                         app = \<lparr>app_tauriPath = tauriDir, app_runner = runner,
                                                 app_name = name info,
                                                 app_version = version info,
                                                 app_wixLanguage = wixLanguage info\<rparr>
                                     in case supplied (iconPath options) of
                                          Some icon \<Rightarrow>
                                            (case execCommand w (runnerCommand runner)
                                                    (map JStr (runnerArgs runner) @
                                                     [JStr ''icon'', JStr (path_join [root, icon])])
                                                    root files2 of
                                               (Some e, files3) \<Rightarrow> (Inl e, files3)
                                             | (None, files3) \<Rightarrow> (Inr app, files3))
                                        | None \<Rightarrow> (Inr app, files2)))))))"

section \<open>Notions used in the statements\<close>

text \<open>The locale configuration of an \<^verbatim>\<open>Info\<close> (lines 187, 188 and 207 to 209 of \<^verbatim>\<open>getInfo\<close>).\<close>

definition resolvedWixLanguage :: "jsval \<Rightarrow> jsval" where
  "resolvedWixLanguage config =
     (if truthy (bundleWixLanguage (get_prop_opt config ''tauri''))
      then bundleWixLanguage (get_prop_opt config ''tauri'')
      else JStr ''en-US'')"

text \<open>The keys under which \<open>spread\<close> lists characters and array elements.\<close>

definition index_key :: "string \<Rightarrow> bool" where
  "index_key k = (k \<noteq> [] \<and> set k \<subseteq> set digits)"

text \<open>
  An absolute path in normal form is the separator followed by its segments, none of
  them empty, \<^verbatim>\<open>.\<close> or \<^verbatim>\<open>..\<close>, joined by separators.
\<close>

definition clean_segment :: "string \<Rightarrow> bool" where
  "clean_segment s = (s \<noteq> [] \<and> sep \<notin> set s \<and> s \<noteq> ''.'' \<and> s \<noteq> ''..'')"

definition abs_path :: "string list \<Rightarrow> string" where
  "abs_path segs = sep # join_sep segs"

text \<open>
  The directories from the one with segments \<open>segs\<close> up to the top-level one, nearest
  first, and the first outcome that \<open>cargoTargetDir\<close> has along a list of directories.
\<close>

definition ancestors :: "string list \<Rightarrow> string list" where
  "ancestors segs = map (\<lambda>k. abs_path (take k segs)) (rev [1..<Suc (length segs)])"

fun firstTargetDir :: "sys \<Rightarrow> fs \<Rightarrow> string list \<Rightarrow> (error + jsval) option" where
  "firstTargetDir w files [] = None"
| "firstTargetDir w files (d # ds) =
     (case cargoTargetDir w files d of
        Some r \<Rightarrow> Some r
      | None \<Rightarrow> firstTargetDir w files ds)"

section \<open>A concrete environment\<close>

text \<open>
  The parsers of the examples know the documents listed in their tables and reject every
  other text with a syntax error; the serialiser writes a listed value as its document.
\<close>

definition parse_table :: "(string \<times> jsval) list \<Rightarrow> string \<Rightarrow> error + jsval" where
  "parse_table table contents =
     (case map_of table contents of
        Some v \<Rightarrow> Inr v
      | None \<Rightarrow> Inl (SyntaxError contents))"

definition stringify_table :: "(string \<times> jsval) list \<Rightarrow> jsval \<Rightarrow> string" where
  "stringify_table table v =
     (case find (\<lambda>entry. snd entry = v) table of
        Some entry \<Rightarrow> fst entry
      | None \<Rightarrow> ''{}'')"

definition ex_conf_text :: string where
  "ex_conf_text = ''{\"package\": {\"version\": \"1.2.3\"}, \"tauri\": {\"bundle\": {\"identifier\": \"com.tauri.dev\", \"windows\": {\"wix\": {\"language\": \"fr-FR\"}}}}}''"

definition ex_conf :: jsval where
  "ex_conf =
     JObj [(''package'', JObj [(''version'', JStr ''1.2.3'')]),
           (''tauri'', JObj [(''bundle'',
              JObj [(''identifier'', JStr ''com.tauri.dev''),
                    (''windows'', JObj [(''wix'', JObj [(''language'', JStr ''fr-FR'')])])])])]"

definition ex_merged_text :: string where
  "ex_merged_text = ''{\"package\": {\"version\": \"1.2.3\"}, \"tauri\": {\"bundle\": {\"identifier\": \"com.example.app\", \"windows\": {\"wix\": {\"language\": \"fr-FR\"}}}}}''"

definition ex_merged :: jsval where
  "ex_merged =
     JObj [(''package'', JObj [(''version'', JStr ''1.2.3'')]),
           (''tauri'', JObj [(''bundle'',
              JObj [(''identifier'', JStr ''com.example.app''),
                    (''windows'', JObj [(''wix'', JObj [(''language'', JStr ''fr-FR'')])])])])]"

definition ex_init_conf_text :: string where
  "ex_init_conf_text = ''{\"package\": {\"productName\": \"app\", \"version\": \"0.0.0\"}}''"

definition ex_init_conf :: jsval where
  "ex_init_conf = JObj [(''package'', JObj [(''productName'', JStr ''app''), (''version'', JStr ''0.0.0'')])]"

definition ex_pointer_conf_text :: string where
  "ex_pointer_conf_text = ''{\"package\": {\"productName\": \"My App\", \"version\": \"sub/package.json\"}}''"

definition ex_pointer_conf :: jsval where
  "ex_pointer_conf =
     JObj [(''package'', JObj [(''productName'', JStr ''My App''),
                               (''version'', JStr ''sub/package.json'')])]"

definition ex_sub_package_text :: string where
  "ex_sub_package_text = ''{\"version\": \"2.3.4\"}''"

definition ex_sub_package :: jsval where
  "ex_sub_package = JObj [(''version'', JStr ''2.3.4'')]"

definition ex_manifest_text :: string where
  "ex_manifest_text = ''{\"displayName\": \"My App\", \"name\": \"my-app\", \"version\": \"1.0.0\"}''"

definition ex_manifest :: "(string \<times> jsval) list" where
  "ex_manifest =
     [(''displayName'', JStr ''My App''), (''name'', JStr ''my-app''), (''version'', JStr ''1.0.0'')]"

definition ex_unversioned_text :: string where
  "ex_unversioned_text = ''{\"name\": \"my app\"}''"

definition ex_unversioned :: "(string \<times> jsval) list" where
  "ex_unversioned = [(''name'', JStr ''my app'')]"

definition ex_anonymous_text :: string where
  "ex_anonymous_text = ''{\"private\": true}''"

definition ex_anonymous :: "(string \<times> jsval) list" where
  "ex_anonymous = [(''private'', JBool True)]"

definition ex_malformed_text :: string where
  "ex_malformed_text = ''{ \"package\": ''"

definition ex_cargo_text :: string where
  "ex_cargo_text = ''package = { name = \"my-crate\", version = \"0.9.0\" }''"

definition ex_cargo :: jsval where
  "ex_cargo = JObj [(''package'', JObj [(''name'', JStr ''my-crate''), (''version'', JStr ''0.9.0'')])]"

definition ex_cargo_config_text :: string where
  "ex_cargo_config_text = ''build = { target-dir = \"/cfg/target\" }''"

definition ex_cargo_config :: jsval where
  "ex_cargo_config = JObj [(''build'', JObj [(''target-dir'', JStr ''/cfg/target'')])]"

definition ex_named_conf_text :: string where
  "ex_named_conf_text = ''{\"package\": {\"productName\": \"From Config\"}}''"

definition ex_named_conf :: jsval where
  "ex_named_conf = JObj [(''package'', JObj [(''productName'', JStr ''From Config'')])]"

definition ex_empty_object_text :: string where
  "ex_empty_object_text = ''{}''"

definition ex_null_text :: string where
  "ex_null_text = ''null''"

definition ex_json :: "(string \<times> jsval) list" where
  "ex_json =
     [(ex_conf_text, ex_conf), (ex_merged_text, ex_merged), (ex_init_conf_text, ex_init_conf),
      (ex_pointer_conf_text, ex_pointer_conf), (ex_sub_package_text, ex_sub_package),
      (ex_manifest_text, JObj ex_manifest), (ex_unversioned_text, JObj ex_unversioned),
      (ex_anonymous_text, JObj ex_anonymous), (ex_named_conf_text, ex_named_conf),
      (ex_empty_object_text, JObj []), (ex_null_text, JNull)]"

definition ex_toml :: "(string \<times> jsval) list" where
  "ex_toml = [(ex_cargo_text, ex_cargo), (ex_cargo_config_text, ex_cargo_config)]"

text \<open>
  The glob of the examples finds \<^verbatim>\<open>src-tauri/tauri.conf.json\<close> under the root when that
  file exists. Their \<^verbatim>\<open>init\<close> command creates it when it is missing, and every other
  command fails with exit status 1, leaving the files as they are.
\<close>

definition ex_glob :: "fs \<Rightarrow> string \<Rightarrow> string \<Rightarrow> string list \<Rightarrow> string list" where
  "ex_glob files pattern dir rules =
     (if pattern = ''**/tauri.conf.json''
         \<and> files (path_join [dir, ''src-tauri/tauri.conf.json'']) \<noteq> None
      then [''src-tauri/tauri.conf.json'']
      else [])"

definition ex_execa :: "string \<Rightarrow> jsval list \<Rightarrow> string \<Rightarrow> fs \<Rightarrow> error option \<times> fs" where
  "ex_execa command arguments dir files =
     (if JStr ''init'' \<in> set arguments then
        (None,
         (if files (path_join [dir, ''src-tauri/tauri.conf.json'']) = None
          then files(path_join [dir, ''src-tauri/tauri.conf.json''] \<mapsto> ex_init_conf_text)
          else files))
      else (Some (CommandFailed 1), files))"

definition ex_sys :: sys where
  "ex_sys =
     \<lparr>JSON_parse = parse_table ex_json, JSON5_parse = parse_table ex_json,
      parseToml = parse_table ex_toml, JSON_stringify = stringify_table ex_json,
      globSync = ex_glob, cwd = ''/work'', env = Map.empty, execa = ex_execa\<rparr>"

definition ex_sys_env :: sys where
  "ex_sys_env = ex_sys\<lparr>env := [''CARGO_TARGET_DIR'' \<mapsto> ''/env/target'']\<rparr>"

definition ex_runner :: Runner where
  "ex_runner = \<lparr>runnerCommand = ''npx'', runnerArgs = [''tauri'']\<rparr>"

definition ex_options :: BuildOptions where
  "ex_options =
     \<lparr>configPath = None, distPath = None, iconPath = Some ''icon.png'', tauriScript = None,
      args = None, bundleIdentifier = Some ''com.example.app''\<rparr>"

definition ex_info :: Info where
  "ex_info =
     \<lparr>tauriPath = Some ''/repo/src-tauri'', name = JStr ''my-crate'', version = JStr ''1.2.3'',
      wixLanguage = JStr ''fr-FR''\<rparr>"

definition ex_info_default :: Info where
  "ex_info_default =
     \<lparr>tauriPath = None, name = JStr ''app'', version = JStr ''0.1.0'',
      wixLanguage = JStr ''en-US''\<rparr>"

definition ex_files_native :: fs where
  "ex_files_native =
     map_of [(''/repo/src-tauri/tauri.conf.json'', ex_conf_text),
             (''/repo/src-tauri/Cargo.toml'', ex_cargo_text)]"

definition ex_files_pointer :: fs where
  "ex_files_pointer =
     map_of [(''/repo/src-tauri/tauri.conf.json'', ex_pointer_conf_text),
             (''/repo/src-tauri/sub/package.json'', ex_sub_package_text)]"


definition ex_files_pointer_unversioned :: fs where
  "ex_files_pointer_unversioned =
     map_of [(''/repo/src-tauri/tauri.conf.json'', ex_pointer_conf_text),
             (''/repo/src-tauri/sub/package.json'', ex_empty_object_text),
             (''/repo/src-tauri/Cargo.toml'', ex_cargo_text)]"

definition ex_files_null :: fs where
  "ex_files_null = map_of [(''/repo/package.json'', ex_null_text)]"

definition ex_files_manifest :: fs where
  "ex_files_manifest = map_of [(''/repo/package.json'', ex_manifest_text)]"

definition ex_files_unversioned :: fs where
  "ex_files_unversioned = map_of [(''/repo/package.json'', ex_unversioned_text)]"

definition ex_files_anonymous :: fs where
  "ex_files_anonymous = map_of [(''/repo/package.json'', ex_anonymous_text)]"

definition ex_files_malformed :: fs where
  "ex_files_malformed = map_of [(''/repo/src-tauri/tauri.conf.json'', ex_malformed_text)]"

definition ex_files_cargo_config :: fs where
  "ex_files_cargo_config =
     map_of [(''/repo/src-tauri/tauri.conf.json'', ex_conf_text),
             (''/repo/.cargo/config.toml'', ex_cargo_config_text)]"

definition ex_files_crate_config :: fs where
  "ex_files_crate_config =
     map_of [(''/repo/src-tauri/tauri.conf.json'', ex_conf_text),
             (''/repo/src-tauri/.cargo/config'', ex_cargo_config_text)]"

section \<open>Paths in normal form\<close>

lemma split_sep_no_sep: "sep \<notin> set s \<Longrightarrow> split_sep s = [s]"
  by (induction s) auto

lemma split_sep_append: "sep \<notin> set s \<Longrightarrow> split_sep (s @ sep # t) = s # split_sep t"
  by (induction s) auto

lemma split_join_sep:
  "xs \<noteq> [] \<Longrightarrow> \<forall>x \<in> set xs. sep \<notin> set x \<Longrightarrow> split_sep (join_sep xs) = xs"
  by (induction xs rule: join_sep.induct) (auto simp: split_sep_no_sep split_sep_append)

lemma join_sep_snoc: "xs \<noteq> [] \<Longrightarrow> join_sep (xs @ [y]) = join_sep xs @ sep # y"
  by (induction xs rule: join_sep.induct) auto

lemma join_sep_Nil_iff: "join_sep xs = [] \<longleftrightarrow> xs = [] \<or> xs = [[]]"
  by (induction xs rule: join_sep.induct) auto

lemma join_sep_nonempty: "xs \<noteq> [] \<Longrightarrow> \<forall>x \<in> set xs. x \<noteq> [] \<Longrightarrow> join_sep xs \<noteq> []"
  by (induction xs rule: join_sep.induct) auto

lemma last_join_sep: "xs \<noteq> [] \<Longrightarrow> last xs \<noteq> [] \<Longrightarrow> last (join_sep xs) = last (last xs)"
  by (induction xs rule: join_sep.induct) (auto simp: join_sep_Nil_iff)

text \<open>Segments in normal form pass through \<^verbatim>\<open>normalizeString\<close> unchanged.\<close>

lemma foldl_normalize_clean:
  "\<forall>s \<in> set segs. clean_segment s \<Longrightarrow>
   foldl (normalize_step allow) acc segs = rev segs @ acc"
  by (induction segs arbitrary: acc) (auto simp: clean_segment_def)

lemma normalizeString_abs:
  assumes "\<forall>s \<in> set segs. clean_segment s"
  shows "normalizeString (abs_path segs) False = join_sep segs"
proof (cases "segs = []")
  case True
  then show ?thesis by (simp add: normalizeString_def abs_path_def)
next
  case False
  have "split_sep (abs_path segs) = [] # segs"
    using split_join_sep[OF False] assms by (simp add: abs_path_def clean_segment_def)
  then show ?thesis
    using foldl_normalize_clean[OF assms, of False "[]"] by (simp add: normalizeString_def)
qed

lemma normalizeString_parent:
  assumes "\<forall>s \<in> set segs. clean_segment s" "segs \<noteq> []"
  shows "normalizeString (abs_path segs @ sep # ''..'') False = join_sep (butlast segs)"
proof -
  have nosep: "\<forall>x \<in> set (segs @ [''..'']). sep \<notin> set x"
    using assms(1) by (auto simp: clean_segment_def sep_def)
  have "abs_path segs @ sep # ''..'' = sep # join_sep (segs @ [''..''])"
    using assms(2) by (simp add: abs_path_def join_sep_snoc)
  then have sp: "split_sep (abs_path segs @ sep # ''..'') = [] # segs @ [''..'']"
    using split_join_sep[OF _ nosep] by simp
  have lastc: "last segs \<noteq> ''..''"
    using assms by (metis clean_segment_def last_in_set)
  have "foldl (normalize_step False) [] ([] # segs @ [''..'']) = rev (butlast segs)"
    using foldl_normalize_clean[OF assms(1), of False "[]"] assms(2) lastc
    by (cases segs rule: rev_cases) auto
  then show ?thesis
    unfolding normalizeString_def sp by simp
qed

lemma abs_path_hd_last:
  assumes "\<forall>s \<in> set segs. clean_segment s" "segs \<noteq> []"
  shows "abs_path segs \<noteq> [] \<and> hd (abs_path segs) = sep \<and> last (abs_path segs) \<noteq> sep"
proof -
  have l: "last segs \<noteq> []" "sep \<notin> set (last segs)"
    using assms by (metis clean_segment_def last_in_set)+
  have "join_sep segs \<noteq> []"
    using join_sep_nonempty[OF assms(2)] assms(1) by (simp add: clean_segment_def)
  moreover have "last (join_sep segs) \<noteq> sep"
    using last_join_sep[OF assms(2) l(1)] l by (metis last_in_set)
  ultimately show ?thesis by (simp add: abs_path_def)
qed

text \<open>\<^verbatim>\<open>join(dir, '..')\<close> is the parent directory, and \<^verbatim>\<open>normalize\<close> leaves it as it is.\<close>

lemma path_join_parent:
  assumes "\<forall>s \<in> set segs. clean_segment s" "segs \<noteq> []"
  shows "path_join [abs_path segs, ''..''] = abs_path (butlast segs)"
proof -
  have ne: "abs_path segs \<noteq> []" by (simp add: abs_path_def)
  have "path_normalize (abs_path segs @ sep # ''..'') = abs_path (butlast segs)"
    using normalizeString_parent[OF assms]
    by (simp add: path_normalize_def Let_def abs_path_def sep_def)
  then show ?thesis
    using ne by (simp add: path_join_def)
qed

lemma path_normalize_abs:
  assumes "\<forall>s \<in> set segs. clean_segment s"
  shows "path_normalize (abs_path segs) = abs_path segs"
proof (cases "segs = []")
  case True
  then show ?thesis by (simp add: path_normalize_def abs_path_def normalizeString_def)
next
  case False
  have "join_sep segs \<noteq> []"
    using join_sep_nonempty[OF False] assms by (simp add: clean_segment_def)
  then show ?thesis
    using normalizeString_abs[OF assms] abs_path_hd_last[OF assms False]
    by (simp add: path_normalize_def Let_def) (simp add: abs_path_def)
qed

lemma ancestors_snoc: "ancestors (xs @ [x]) = abs_path (xs @ [x]) # ancestors xs"
  by (auto simp: ancestors_def)

lemma ancestors_Nil: "ancestors [] = []"
  by (simp add: ancestors_def)

text \<open>The paths of the example repository.\<close>

lemma ex_paths:
  "path_join [''/repo'', ''package.json''] = ''/repo/package.json''"
  "path_join [''/repo'', ''.gitignore''] = ''/repo/.gitignore''"
  "path_join [''/repo'', ''src-tauri/tauri.conf.json''] = ''/repo/src-tauri/tauri.conf.json''"
  "path_resolve ''/work'' [''/repo'', ''src-tauri/tauri.conf.json'', ''..''] = ''/repo/src-tauri''"
  "path_join [''/repo/src-tauri'', ''tauri.conf.json''] = ''/repo/src-tauri/tauri.conf.json''"
  "path_join [''/repo/src-tauri'', ''Cargo.toml''] = ''/repo/src-tauri/Cargo.toml''"
  "path_join [''/repo/src-tauri'', ''sub/package.json''] = ''/repo/src-tauri/sub/package.json''"
  "path_join [''/repo/src-tauri/tauri.conf.json'', ''..'', ''tauri.conf.json5'']
     = ''/repo/src-tauri/tauri.conf.json5''"
  "path_join [''/repo'', ''icon.png''] = ''/repo/icon.png''"
  "path_join [''/repo/src-tauri'', ''target''] = ''/repo/src-tauri/target''"
  by code_simp+

section \<open>The build-output directory\<close>

text \<open>
  On an absolute directory in normal form the loop returns: it visits the directory and
  its ancestors below the root, nearest first, and returns the first outcome it meets,
  the default when there is none.
\<close>

lemma targetDirLoop_walk:
  "\<forall>s \<in> set segs. clean_segment s \<Longrightarrow>
   targetDirLoop w files def (abs_path segs) =
     Some (case firstTargetDir w files (ancestors segs) of
             Some r \<Rightarrow> r
           | None \<Rightarrow> Inr (JStr def))"
proof (induction segs rule: rev_induct)
  case Nil
  show ?case
    by (subst targetDirLoop.simps) (simp add: abs_path_def ancestors_Nil)
next
  case (snoc x xs)
  have cl: "\<forall>s \<in> set (xs @ [x]). clean_segment s" using snoc.prems by simp
  have cl': "\<forall>s \<in> set xs. clean_segment s" using snoc.prems by simp
  have cond: "abs_path (xs @ [x]) \<noteq> [] \<and> last (abs_path (xs @ [x])) \<noteq> sep"
    using abs_path_hd_last[OF cl] by simp
  have parent: "path_normalize (path_join [abs_path (xs @ [x]), ''..'']) = abs_path xs"
    using path_join_parent[OF cl] path_normalize_abs[OF cl'] by simp
  show ?case
    apply (subst targetDirLoop.simps)
    apply (simp only: cond parent ancestors_snoc firstTargetDir.simps snoc.IH[OF cl'])
    apply (simp split: option.splits)
    done
qed

text \<open>
  Claim C1 as stated fails. In the example the crate directory has a \<^verbatim>\<open>.cargo/config\<close> that
  sets \<^verbatim>\<open>build.target-dir\<close> to \<^verbatim>\<open>/cfg/target\<close> and the environment sets \<^verbatim>\<open>CARGO_TARGET_DIR\<close> to
  \<^verbatim>\<open>/env/target\<close>: \<^verbatim>\<open>getTargetDir\<close> returns the value of the environment, not that of the
  local configuration file.
\<close>

theorem getTargetDir_config_not_first:
  "cargoTargetDir ex_sys_env ex_files_crate_config ''/repo/src-tauri''
     = Some (Inr (JStr ''/cfg/target''))
   \<and> env ex_sys_env ''CARGO_TARGET_DIR'' = Some ''/env/target''
   \<and> getTargetDir ex_sys_env ex_files_crate_config ''/repo/src-tauri''
     = Some (Inr (JStr ''/env/target''))"
proof (intro conjI)
  show "cargoTargetDir ex_sys_env ex_files_crate_config ''/repo/src-tauri''
     = Some (Inr (JStr ''/cfg/target''))"
    by code_simp
  show e: "env ex_sys_env ''CARGO_TARGET_DIR'' = Some ''/env/target''"
    by (simp add: ex_sys_env_def ex_sys_def)
  show "getTargetDir ex_sys_env ex_files_crate_config ''/repo/src-tauri''
     = Some (Inr (JStr ''/env/target''))"
    by (simp add: getTargetDir_def e)
qed

text \<open>
  Claim C1, as amended. \<^verbatim>\<open>getTargetDir\<close> returns the value of \<^verbatim>\<open>CARGO_TARGET_DIR\<close> whenever
  the variable is in the environment, whatever the configuration files say. Only when the
  variable is absent does it consult \<^verbatim>\<open>.cargo/config\<close> (or \<^verbatim>\<open>.cargo/config.toml\<close>): from an
  absolute crate directory in normal form it returns the outcome of the nearest directory,
  walking upward, whose configuration sets \<^verbatim>\<open>build.target-dir\<close> or fails to load, and
  \<^verbatim>\<open><crateDir>/target\<close> when no directory below the root has one.
\<close>

theorem getTargetDir_env_first:
  "(env w ''CARGO_TARGET_DIR'' = Some v \<longrightarrow>
      getTargetDir w files crateDir = Some (Inr (JStr v)))
   \<and> (env w ''CARGO_TARGET_DIR'' = None \<and> (\<forall>s \<in> set segs. clean_segment s) \<longrightarrow>
        getTargetDir w files (abs_path segs) =
          Some (case firstTargetDir w files (ancestors segs) of
                  Some r \<Rightarrow> r
                | None \<Rightarrow> Inr (JStr (path_join [abs_path segs, ''target'']))))"
  by (simp add: getTargetDir_def targetDirLoop_walk)

text \<open>
  With the variable set the environment wins; without it the configuration of the parent
  directory \<^verbatim>\<open>/repo\<close> is found from \<^verbatim>\<open>/repo/src-tauri\<close>; without any configuration the
  default is returned.
\<close>

theorem getTargetDir_env_first_witness:
  "getTargetDir ex_sys_env ex_files_crate_config ''/repo/src-tauri''
     = Some (Inr (JStr ''/env/target''))
   \<and> getTargetDir ex_sys ex_files_cargo_config ''/repo/src-tauri''
     = Some (Inr (JStr ''/cfg/target''))
   \<and> getTargetDir ex_sys ex_files_native ''/repo/src-tauri''
     = Some (Inr (JStr ''/repo/src-tauri/target''))"
proof -
  have e1: "env ex_sys_env ''CARGO_TARGET_DIR'' = Some ''/env/target''"
    by (simp add: ex_sys_env_def ex_sys_def)
  have e2: "env ex_sys ''CARGO_TARGET_DIR'' = None"
    by (simp add: ex_sys_def)
  have cl: "\<forall>s \<in> set [''repo'', ''src-tauri'']. clean_segment s"
    by (simp add: clean_segment_def sep_def)
  have ap: "abs_path [''repo'', ''src-tauri''] = ''/repo/src-tauri''"
    by (simp add: abs_path_def sep_def)
  have f1: "firstTargetDir ex_sys ex_files_cargo_config (ancestors [''repo'', ''src-tauri''])
              = Some (Inr (JStr ''/cfg/target''))"
    by code_simp
  have f2: "firstTargetDir ex_sys ex_files_native (ancestors [''repo'', ''src-tauri'']) = None"
    by code_simp
  show ?thesis
    using getTargetDir_env_first[of ex_sys_env "''/env/target''" ex_files_crate_config
              "''/repo/src-tauri''" "[]"]
          getTargetDir_env_first[of ex_sys "[]" ex_files_cargo_config "[]"
              "[''repo'', ''src-tauri'']"]
          getTargetDir_env_first[of ex_sys "[]" ex_files_native "[]" "[''repo'', ''src-tauri'']"]
          e1 e2 cl f1 f2
    by (simp add: ap ex_paths)
qed

section \<open>Reading the configuration\<close>

text \<open>
  When the strict parse and the relaxed parse of the file both fail, \<^verbatim>\<open>getConfig\<close> reads the
  sibling \<^verbatim>\<open>tauri.conf.json5\<close> without testing that it exists. With the sibling present and
  no parse succeeding the error is the one of the strict parse; with the sibling absent it
  is the error of the failed read.
\<close>

lemma getConfig_sibling_present:
  assumes "files path = Some contents" and "JSON_parse w contents = Inl e"
    and "getJson5Config w contents = JNull"
    and "files (path_join [path, ''..'', ''tauri.conf.json5'']) = Some contents'"
    and "\<not> truthy (getJson5Config w contents')"
  shows "getConfig w files path = Inl e"
  using assms by (simp add: getConfig_def readFileSync_def)

lemma getConfig_sibling_absent:
  assumes "files path = Some contents" and "JSON_parse w contents = Inl e"
    and "getJson5Config w contents = JNull"
    and "files (path_join [path, ''..'', ''tauri.conf.json5'']) = None"
  shows "getConfig w files path = Inl (ENOENT (path_join [path, ''..'', ''tauri.conf.json5'']))"
  using assms by (simp add: getConfig_def readFileSync_def)

text \<open>
  Claim C3 at a failing input. The file \<^verbatim>\<open>/repo/src-tauri/tauri.conf.json\<close> holds a text that
  neither parser accepts and there is no \<^verbatim>\<open>tauri.conf.json5\<close> beside it: all three attempts
  fail, and \<^verbatim>\<open>getConfig\<close> throws the \<^verbatim>\<open>ENOENT\<close> of the read of the sibling, not the syntax
  error of the strict parse.
\<close>

theorem getConfig_missing_sibling:
  "JSON_parse ex_sys ex_malformed_text = Inl (SyntaxError ex_malformed_text)
   \<and> JSON5_parse ex_sys ex_malformed_text = Inl (SyntaxError ex_malformed_text)
   \<and> ex_files_malformed ''/repo/src-tauri/tauri.conf.json5'' = None
   \<and> getConfig ex_sys ex_files_malformed ''/repo/src-tauri/tauri.conf.json''
       = Inl (ENOENT ''/repo/src-tauri/tauri.conf.json5'')"
  by code_simp

section \<open>Name and version\<close>

lemma get_prop_truthy: "truthy v \<Longrightarrow> get_prop v k = Inr (get_prop_opt v k)"
  by (cases v) auto

lemma replaceSpacesOf_Inr:
  "replaceSpacesOf v = Inr r \<longleftrightarrow> (\<exists>s. v = JStr s \<and> r = JStr (replace_spaces s))"
  by (cases v) auto

lemma getInfo_no_tauri:
  "getTauriDir w files root = None \<Longrightarrow>
   getInfo w files root inConfigPath =
     (case getPackageJson w files root of Inl e \<Rightarrow> Inl e | Inr pj \<Rightarrow> packageJsonInfo pj)"
  by (simp add: getInfo_def)

lemma getPackageJson_present:
  "files (path_join [root, ''package.json'']) = Some contents \<Longrightarrow>
   getPackageJson w files root = JSON_parse w contents"
  by (simp add: getPackageJson_def existsSync_def readFileSync_def)

lemma getPackageJson_absent:
  "files (path_join [root, ''package.json'']) = None \<Longrightarrow>
   getPackageJson w files root = Inr JNull"
  by (simp add: getPackageJson_def existsSync_def)

lemma packageJsonInfo_object:
  "packageJsonInfo (JObj manifest) =
     (case replaceSpacesOf (js_or (get_prop_opt (JObj manifest) ''displayName'')
                                  (get_prop_opt (JObj manifest) ''name'')) of
        Inl e \<Rightarrow> Inl e
      | Inr appName \<Rightarrow>
          Inr \<lparr>tauriPath = None, name = appName,
               version = get_prop_opt (JObj manifest) ''version'',
               wixLanguage = JStr ''en-US''\<rparr>)"
  by (simp add: packageJsonInfo_def js_or_def split: sum.splits)

lemma packageJsonInfo_null:
  "packageJsonInfo JNull =
     Inr \<lparr>tauriPath = None, name = JStr ''app'', version = JStr ''0.1.0'',
          wixLanguage = JStr ''en-US''\<rparr>"
  by (simp add: packageJsonInfo_def)


lemma configNameVersion_pointer:
  assumes "get_prop config ''package'' = Inr package" "truthy package"
    and "get_prop_opt package ''version'' = JStr v" "endsWith v ''.json''"
    and "readFileSync files (path_join [tauriDir, v]) = Inr contents"
    and "JSON_parse w contents = Inr parsed"
    and "get_prop parsed ''version'' = Inr pv"
  shows "configNameVersion w files tauriDir config =
           Inr (get_prop_opt package ''productName'', pv)"
  using assms by (simp add: configNameVersion_def get_prop_truthy)

text \<open>The fallback to \<^verbatim>\<open>Cargo.toml\<close> fills what is missing and keeps what is there.\<close>

lemma manifestNameVersion_keep:
  "manifestNameVersion w files tauriDir (n0, v0) = Inr (n1, v1) \<Longrightarrow>
   (truthy n0 \<longrightarrow> n1 = n0) \<and> (truthy v0 \<longrightarrow> v1 = v0)"
  by (auto simp: manifestNameVersion_def Let_def split: if_splits sum.splits)

lemma manifestNameVersion_done:
  "truthy n0 \<Longrightarrow> truthy v0 \<Longrightarrow> manifestNameVersion w files tauriDir (n0, v0) = Inr (n0, v0)"
  by (simp add: manifestNameVersion_def)


lemma getInfo_tauri:
  assumes "getTauriDir w files root = Some tauriDir"
    and "getConfig w files
           (case inConfigPath of Some p \<Rightarrow> p
            | None \<Rightarrow> path_join [tauriDir, ''tauri.conf.json'']) = Inr config"
    and "get_prop config ''package'' = Inr package"
    and "configNameVersion w files tauriDir config = Inr nv"
  shows "getInfo w files root inConfigPath =
     (case manifestNameVersion w files tauriDir nv of
        Inl e \<Rightarrow> Inl e
      | Inr (name1, version1) \<Rightarrow>
          if \<not> (truthy name1 \<and> truthy version1) then Inl (ProcessExit 1)
          else Inr \<lparr>tauriPath = Some tauriDir, name = name1, version = version1,
                    wixLanguage = resolvedWixLanguage config\<rparr>)"
proof -
  have "get_prop config ''tauri'' = Inr (get_prop_opt config ''tauri'')"
    using assms(3) by (cases config) auto
  then show ?thesis
    using assms
    by (simp add: getInfo_def Let_def resolvedWixLanguage_def split: sum.splits prod.splits)
qed


lemma getInfo_Inr_stages:
  assumes "getTauriDir w files root = Some tauriDir"
    and "getConfig w files
           (case inConfigPath of Some p \<Rightarrow> p
            | None \<Rightarrow> path_join [tauriDir, ''tauri.conf.json'']) = Inr config"
    and "getInfo w files root inConfigPath = Inr info"
  shows "\<exists>n0 v0. configNameVersion w files tauriDir config = Inr (n0, v0)
           \<and> manifestNameVersion w files tauriDir (n0, v0) = Inr (name info, version info)"
  using assms
  by (auto simp: getInfo_def Let_def split: sum.splits prod.splits if_splits)

lemma manifestNameVersion_version_fallback:
  "\<not> truthy v0 \<Longrightarrow> manifestNameVersion w files tauriDir (n0, v0) = Inr (n1, v1) \<Longrightarrow>
   \<exists>contents manifest.
      readFileSync files (path_join [tauriDir, ''Cargo.toml'']) = Inr contents
      \<and> parseToml w contents = Inr manifest
      \<and> manifestPackage manifest ''version'' = Inr v1"
  by (auto simp: manifestNameVersion_def Let_def split: if_splits sum.splits)



text \<open>
  Claim C5 as stated fails. The configuration points its version to \<^verbatim>\<open>sub/package.json\<close>,
  that file is \<^verbatim>\<open>{}\<close> and has no version field, and \<^verbatim>\<open>Cargo.toml\<close> has the version \<^verbatim>\<open>0.9.0\<close>:
  the file is read, but the version \<^verbatim>\<open>getInfo\<close> returns is the one of \<^verbatim>\<open>Cargo.toml\<close>, not the
  field of the file.
\<close>

theorem getInfo_pointer_without_version:
  "getConfig ex_sys ex_files_pointer_unversioned ''/repo/src-tauri/tauri.conf.json''
     = Inr ex_pointer_conf
   \<and> get_prop ex_pointer_conf ''package''
       = Inr (JObj [(''productName'', JStr ''My App''), (''version'', JStr ''sub/package.json'')])
   \<and> ex_files_pointer_unversioned ''/repo/src-tauri/sub/package.json'' = Some ''{}''
   \<and> JSON_parse ex_sys ''{}'' = Inr (JObj [])
   \<and> get_prop (JObj []) ''version'' = Inr JUndefined
   \<and> manifestPackage ex_cargo ''version'' = Inr (JStr ''0.9.0'')
   \<and> getInfo ex_sys ex_files_pointer_unversioned ''/repo'' None
       = Inr \<lparr>tauriPath = Some ''/repo/src-tauri'', name = JStr ''My App'',
              version = JStr ''0.9.0'', wixLanguage = JStr ''en-US''\<rparr>"
  by code_simp

text \<open>
  Claim C5, as amended. When \<^verbatim>\<open>package.version\<close> of the native configuration is a string
  that ends with \<^verbatim>\<open>.json\<close>, \<^verbatim>\<open>getInfo\<close> joins it to the project directory and reads and parses
  that file. When the file's \<^verbatim>\<open>version\<close> field is truthy it is the version of every \<^verbatim>\<open>Info\<close>
  that \<^verbatim>\<open>getInfo\<close> returns, and \<^verbatim>\<open>getInfo\<close> returns one as soon as the configuration has a
  \<^verbatim>\<open>productName\<close>. When the field is missing or falsy, the version of every \<^verbatim>\<open>Info\<close>
  returned is \<^verbatim>\<open>package.version\<close> of \<^verbatim>\<open>Cargo.toml\<close>.
\<close>

theorem getInfo_version_pointer:
  assumes "getTauriDir w files root = Some tauriDir"
    and "getConfig w files
           (case inConfigPath of Some p \<Rightarrow> p
            | None \<Rightarrow> path_join [tauriDir, ''tauri.conf.json'']) = Inr config"
    and "get_prop config ''package'' = Inr package" and "truthy package"
    and "get_prop_opt package ''version'' = JStr v" and "endsWith v ''.json''"
    and "readFileSync files (path_join [tauriDir, v]) = Inr contents"
    and "JSON_parse w contents = Inr parsed"
    and "get_prop parsed ''version'' = Inr pv"
  shows "(truthy pv \<longrightarrow>
            (\<forall>info. getInfo w files root inConfigPath = Inr info \<longrightarrow> version info = pv)
          \<and> (truthy (get_prop_opt package ''productName'') \<longrightarrow>
                getInfo w files root inConfigPath =
                  Inr \<lparr>tauriPath = Some tauriDir, name = get_prop_opt package ''productName'',
                       version = pv, wixLanguage = resolvedWixLanguage config\<rparr>))
       \<and> (\<not> truthy pv \<longrightarrow>
            (\<forall>info. getInfo w files root inConfigPath = Inr info \<longrightarrow>
               (\<exists>contents' manifest.
                   readFileSync files (path_join [tauriDir, ''Cargo.toml'']) = Inr contents'
                   \<and> parseToml w contents' = Inr manifest
                   \<and> manifestPackage manifest ''version'' = Inr (version info))))"
proof -
  note cnv = configNameVersion_pointer[OF assms(3,4,5,6,7,8,9)]
  note gi = getInfo_tauri[OF assms(1,2,3) cnv]
  show ?thesis
  proof (intro conjI impI allI)
    fix info assume t: "truthy pv" and ok: "getInfo w files root inConfigPath = Inr info"
    from getInfo_Inr_stages[OF assms(1,2) ok] cnv
    have "manifestNameVersion w files tauriDir (get_prop_opt package ''productName'', pv)
            = Inr (name info, version info)" by simp
    from manifestNameVersion_keep[OF this] t show "version info = pv" by simp
  next
    assume "truthy pv" "truthy (get_prop_opt package ''productName'')"
    then show "getInfo w files root inConfigPath =
                  Inr \<lparr>tauriPath = Some tauriDir, name = get_prop_opt package ''productName'',
                       version = pv, wixLanguage = resolvedWixLanguage config\<rparr>"
      using gi by (simp add: manifestNameVersion_done)
  next
    fix info assume f: "\<not> truthy pv" and ok: "getInfo w files root inConfigPath = Inr info"
    from getInfo_Inr_stages[OF assms(1,2) ok] cnv
    have "manifestNameVersion w files tauriDir (get_prop_opt package ''productName'', pv)
            = Inr (name info, version info)" by simp
    from manifestNameVersion_version_fallback[OF f this]
    show "\<exists>contents' manifest.
                   readFileSync files (path_join [tauriDir, ''Cargo.toml'']) = Inr contents'
                   \<and> parseToml w contents' = Inr manifest
                   \<and> manifestPackage manifest ''version'' = Inr (version info)" .
  qed
qed

text \<open>
  The example of the claim: \<^verbatim>\<open>package.version\<close> is \<^verbatim>\<open>sub/package.json\<close>, and that file
  holds the version \<^verbatim>\<open>2.3.4\<close>. And the same configuration beside a file \<^verbatim>\<open>{}\<close>: the version
  returned, \<^verbatim>\<open>0.9.0\<close>, is the one that \<^verbatim>\<open>Cargo.toml\<close> holds.
\<close>

theorem getInfo_version_pointer_witness:
  "getConfig ex_sys ex_files_pointer ''/repo/src-tauri/tauri.conf.json'' = Inr ex_pointer_conf
   \<and> get_prop ex_pointer_conf ''package''
       = Inr (JObj [(''productName'', JStr ''My App''), (''version'', JStr ''sub/package.json'')])
   \<and> ex_files_pointer ''/repo/src-tauri/sub/package.json'' = Some ex_sub_package_text
   \<and> JSON_parse ex_sys ex_sub_package_text = Inr (JObj [(''version'', JStr ''2.3.4'')])
   \<and> getInfo ex_sys ex_files_pointer ''/repo'' None
       = Inr \<lparr>tauriPath = Some ''/repo/src-tauri'', name = JStr ''My App'',
              version = JStr ''2.3.4'', wixLanguage = JStr ''en-US''\<rparr>
   \<and> JSON_parse ex_sys ex_empty_object_text = Inr (JObj [])
   \<and> (\<exists>contents' manifest.
          readFileSync ex_files_pointer_unversioned ''/repo/src-tauri/Cargo.toml'' = Inr contents'
          \<and> parseToml ex_sys contents' = Inr manifest
          \<and> manifestPackage manifest ''version'' = Inr (JStr ''0.9.0''))"
proof -
  let ?package = "JObj [(''productName'', JStr ''My App''), (''version'', JStr ''sub/package.json'')]"
  have h1: "getTauriDir ex_sys ex_files_pointer ''/repo'' = Some ''/repo/src-tauri''"
    by code_simp
  have h2: "getConfig ex_sys ex_files_pointer
              (case None of Some p \<Rightarrow> p
               | None \<Rightarrow> path_join [''/repo/src-tauri'', ''tauri.conf.json''])
            = Inr ex_pointer_conf"
    by code_simp
  have h3: "get_prop ex_pointer_conf ''package'' = Inr ?package"
    by (simp add: ex_pointer_conf_def)
  have h4: "truthy ?package" by simp
  have h5: "get_prop_opt ?package ''version'' = JStr ''sub/package.json''" by simp
  have h6: "endsWith ''sub/package.json'' ''.json''" by (simp add: endsWith_def)
  have h7: "readFileSync ex_files_pointer (path_join [''/repo/src-tauri'', ''sub/package.json''])
              = Inr ex_sub_package_text"
    by code_simp
  have h8: "JSON_parse ex_sys ex_sub_package_text = Inr ex_sub_package" by code_simp
  have h9: "get_prop ex_sub_package ''version'' = Inr (JStr ''2.3.4'')"
    by (simp add: ex_sub_package_def)
  have f: "ex_files_pointer ''/repo/src-tauri/sub/package.json'' = Some ex_sub_package_text"
    by (simp add: ex_files_pointer_def)
  have w: "resolvedWixLanguage ex_pointer_conf = JStr ''en-US''" by code_simp
  have a: "getInfo ex_sys ex_files_pointer ''/repo'' None
       = Inr \<lparr>tauriPath = Some ''/repo/src-tauri'', name = JStr ''My App'',
              version = JStr ''2.3.4'', wixLanguage = resolvedWixLanguage ex_pointer_conf\<rparr>"
    using getInfo_version_pointer[OF h1 h2 h3 h4 h5 h6 h7 h8 h9] by simp
  have k1: "getTauriDir ex_sys ex_files_pointer_unversioned ''/repo'' = Some ''/repo/src-tauri''"
    by code_simp
  have k2: "getConfig ex_sys ex_files_pointer_unversioned
              (case None of Some p \<Rightarrow> p
               | None \<Rightarrow> path_join [''/repo/src-tauri'', ''tauri.conf.json''])
            = Inr ex_pointer_conf"
    by code_simp
  have k7: "readFileSync ex_files_pointer_unversioned
              (path_join [''/repo/src-tauri'', ''sub/package.json'']) = Inr ex_empty_object_text"
    by code_simp
  have k8: "JSON_parse ex_sys ex_empty_object_text = Inr (JObj [])" by code_simp
  have k9: "get_prop (JObj []) ''version'' = Inr JUndefined" by simp
  have g: "getInfo ex_sys ex_files_pointer_unversioned ''/repo'' None
       = Inr \<lparr>tauriPath = Some ''/repo/src-tauri'', name = JStr ''My App'',
              version = JStr ''0.9.0'', wixLanguage = JStr ''en-US''\<rparr>"
    by code_simp
  have b: "\<exists>contents' manifest.
          readFileSync ex_files_pointer_unversioned (path_join [''/repo/src-tauri'', ''Cargo.toml''])
            = Inr contents'
          \<and> parseToml ex_sys contents' = Inr manifest
          \<and> manifestPackage manifest ''version'' = Inr (JStr ''0.9.0'')"
    using getInfo_version_pointer[OF k1 k2 h3 h4 h5 h6 k7 k8 k9] g by simp
  show ?thesis
    using a b h2 h3 h8 k8 f w by (simp add: ex_paths ex_sub_package_def)
qed

text \<open>
  Claim C6 as stated fails. The repository has no native project and its manifest is
  \<^verbatim>\<open>{"name": "my app"}\<close>, with no version: \<^verbatim>\<open>getInfo\<close> returns the name \<^verbatim>\<open>my-app\<close> and leaves
  the version \<^verbatim>\<open>undefined\<close>, which is neither a version of the manifest nor \<^verbatim>\<open>0.1.0\<close>. And
  with the manifest \<^verbatim>\<open>{"private": true}\<close>, which has no name either, it returns nothing: it
  throws.
\<close>

theorem getInfo_unversioned_manifest:
  "getTauriDir ex_sys ex_files_unversioned ''/repo'' = None
   \<and> getPackageJson ex_sys ex_files_unversioned ''/repo'' = Inr (JObj [(''name'', JStr ''my app'')])
   \<and> getInfo ex_sys ex_files_unversioned ''/repo'' None
       = Inr \<lparr>tauriPath = None, name = JStr ''my-app'', version = JUndefined,
              wixLanguage = JStr ''en-US''\<rparr>
   \<and> getTauriDir ex_sys ex_files_anonymous ''/repo'' = None
   \<and> getPackageJson ex_sys ex_files_anonymous ''/repo'' = Inr (JObj [(''private'', JBool True)])
   \<and> getInfo ex_sys ex_files_anonymous ''/repo'' None = Inl (TypeError ''replace'')"
  by code_simp

text \<open>
  Claim C6, as amended. When no native-project directory is found, \<^verbatim>\<open>getInfo\<close> builds its
  result from the JavaScript manifest alone. Without a manifest file it returns name
  \<^verbatim>\<open>app\<close> and version \<^verbatim>\<open>0.1.0\<close>. With a manifest whose \<^verbatim>\<open>displayName\<close>, or else \<^verbatim>\<open>name\<close>, is a
  string it returns that string with every space replaced by a hyphen, and as version the
  manifest's \<^verbatim>\<open>version\<close> field as it is, unset when the manifest declares none: \<^verbatim>\<open>0.1.0\<close>
  stands in only for a missing manifest. In both cases the locale configuration is
  \<^verbatim>\<open>en-US\<close> and the native-project path is absent.
\<close>

theorem getInfo_without_native_project:
  assumes "getTauriDir w files root = None"
  shows "(files (path_join [root, ''package.json'']) = None \<longrightarrow>
            getInfo w files root inConfigPath =
              Inr \<lparr>tauriPath = None, name = JStr ''app'', version = JStr ''0.1.0'',
                   wixLanguage = JStr ''en-US''\<rparr>)
       \<and> (files (path_join [root, ''package.json'']) = Some contents
            \<and> JSON_parse w contents = Inr (JObj manifest)
            \<and> js_or (get_prop_opt (JObj manifest) ''displayName'')
                     (get_prop_opt (JObj manifest) ''name'') = JStr s \<longrightarrow>
            getInfo w files root inConfigPath =
              Inr \<lparr>tauriPath = None, name = JStr (replace_spaces s),
                   version = get_prop_opt (JObj manifest) ''version'',
                   wixLanguage = JStr ''en-US''\<rparr>)"
  using assms
  by (simp add: getInfo_no_tauri getPackageJson_present getPackageJson_absent
        packageJsonInfo_object packageJsonInfo_null)

theorem getInfo_without_native_project_witness:
  "getInfo ex_sys Map.empty ''/repo'' None
     = Inr \<lparr>tauriPath = None, name = JStr ''app'', version = JStr ''0.1.0'',
            wixLanguage = JStr ''en-US''\<rparr>
   \<and> ex_files_manifest ''/repo/package.json'' = Some ex_manifest_text
   \<and> JSON_parse ex_sys ex_manifest_text = Inr (JObj ex_manifest)
   \<and> getInfo ex_sys ex_files_manifest ''/repo'' None
       = Inr \<lparr>tauriPath = None, name = JStr ''My-App'', version = JStr ''1.0.0'',
              wixLanguage = JStr ''en-US''\<rparr>"
proof -
  have t1: "getTauriDir ex_sys Map.empty ''/repo'' = None" by code_simp
  have t2: "getTauriDir ex_sys ex_files_manifest ''/repo'' = None" by code_simp
  have f: "ex_files_manifest (path_join [''/repo'', ''package.json'']) = Some ex_manifest_text"
    by (simp add: ex_files_manifest_def ex_paths)
  have p: "JSON_parse ex_sys ex_manifest_text = Inr (JObj ex_manifest)" by code_simp
  have n: "js_or (get_prop_opt (JObj ex_manifest) ''displayName'')
                 (get_prop_opt (JObj ex_manifest) ''name'') = JStr ''My App''"
    by (simp add: js_or_def ex_manifest_def)
  have v: "get_prop_opt (JObj ex_manifest) ''version'' = JStr ''1.0.0''"
    by (simp add: ex_manifest_def)
  have r: "replace_spaces ''My App'' = ''My-App''" by (simp add: replace_spaces_def)
  show ?thesis
    using getInfo_without_native_project[OF t1, of None "[]" "[]" "[]"]
          getInfo_without_native_project[OF t2, of None ex_manifest_text ex_manifest "''My App''"]
          f p n v r
    by (simp add: ex_paths)
qed

lemma packageJsonInfo_truthy:
  "truthy packageJson \<Longrightarrow>
   packageJsonInfo packageJson =
     (case replaceSpacesOf (js_or (get_prop_opt packageJson ''displayName'')
                                  (get_prop_opt packageJson ''name'')) of
        Inl e \<Rightarrow> Inl e
      | Inr appName \<Rightarrow>
          Inr \<lparr>tauriPath = None, name = appName,
               version = get_prop_opt packageJson ''version'',
               wixLanguage = JStr ''en-US''\<rparr>)"
  by (simp add: packageJsonInfo_def js_or_def get_prop_truthy split: sum.splits)

lemma packageJsonInfo_falsy:
  "\<not> truthy packageJson \<Longrightarrow>
   packageJsonInfo packageJson =
     Inr \<lparr>tauriPath = None, name = JStr ''app'', version = JStr ''0.1.0'',
          wixLanguage = JStr ''en-US''\<rparr>"
  by (simp add: packageJsonInfo_def)

text \<open>
  Claim C10 as stated fails. The repository has no native project and its \<^verbatim>\<open>package.json\<close>
  is present and holds \<^verbatim>\<open>null\<close>: the file declares neither \<^verbatim>\<open>displayName\<close> nor \<^verbatim>\<open>name\<close>, yet
  \<^verbatim>\<open>getInfo\<close> does not throw and returns the default name \<^verbatim>\<open>app\<close>, although the manifest file
  is not absent.
\<close>

theorem getInfo_null_manifest:
  "getTauriDir ex_sys ex_files_null ''/repo'' = None
   \<and> ex_files_null ''/repo/package.json'' = Some ''null''
   \<and> JSON_parse ex_sys ''null'' = Inr JNull
   \<and> getInfo ex_sys ex_files_null ''/repo'' None
       = Inr \<lparr>tauriPath = None, name = JStr ''app'', version = JStr ''0.1.0'',
              wixLanguage = JStr ''en-US''\<rparr>"
  by code_simp

text \<open>
  Claim C10, as amended. When no native-project directory is found and the manifest file
  is present and parses to a truthy value (an object, for a manifest), \<^verbatim>\<open>getInfo\<close> throws a
  TypeError if that value declares neither \<^verbatim>\<open>displayName\<close> nor \<^verbatim>\<open>name\<close>, since \<^verbatim>\<open>replace\<close> is
  called on \<^verbatim>\<open>undefined\<close>; and whenever it returns for such a manifest, the name is the
  manifest's \<^verbatim>\<open>displayName\<close>, or else \<^verbatim>\<open>name\<close>, with hyphens for spaces, not the default. The
  default \<^verbatim>\<open>app\<close> is used when the manifest file is absent, and also when the file is
  present but parses to a falsy value (\<^verbatim>\<open>null\<close>, \<^verbatim>\<open>false\<close>, \<^verbatim>\<open>0\<close> or the empty string).
\<close>

theorem getInfo_nameless_manifest:
  assumes "getTauriDir w files root = None"
  shows "(files (path_join [root, ''package.json'']) = Some contents
          \<and> JSON_parse w contents = Inr packageJson \<and> truthy packageJson
          \<and> get_prop_opt packageJson ''displayName'' = JUndefined
          \<and> get_prop_opt packageJson ''name'' = JUndefined \<longrightarrow>
            getInfo w files root inConfigPath = Inl (TypeError ''replace''))
       \<and> (files (path_join [root, ''package.json'']) = Some contents
          \<and> JSON_parse w contents = Inr packageJson \<and> truthy packageJson \<longrightarrow>
            (\<forall>info. getInfo w files root inConfigPath = Inr info \<longrightarrow>
               (\<exists>s. js_or (get_prop_opt packageJson ''displayName'')
                           (get_prop_opt packageJson ''name'') = JStr s
                    \<and> name info = JStr (replace_spaces s))))
       \<and> (files (path_join [root, ''package.json'']) = Some contents
          \<and> JSON_parse w contents = Inr packageJson \<and> \<not> truthy packageJson \<longrightarrow>
            getInfo w files root inConfigPath =
              Inr \<lparr>tauriPath = None, name = JStr ''app'', version = JStr ''0.1.0'',
                   wixLanguage = JStr ''en-US''\<rparr>)
       \<and> (files (path_join [root, ''package.json'']) = None \<longrightarrow>
            getInfo w files root inConfigPath =
              Inr \<lparr>tauriPath = None, name = JStr ''app'', version = JStr ''0.1.0'',
                   wixLanguage = JStr ''en-US''\<rparr>)"
proof (intro conjI impI allI)
  assume "files (path_join [root, ''package.json'']) = Some contents
          \<and> JSON_parse w contents = Inr packageJson \<and> truthy packageJson
          \<and> get_prop_opt packageJson ''displayName'' = JUndefined
          \<and> get_prop_opt packageJson ''name'' = JUndefined"
  then show "getInfo w files root inConfigPath = Inl (TypeError ''replace'')"
    using assms
    by (simp add: getInfo_no_tauri getPackageJson_present packageJsonInfo_truthy js_or_def)
next
  fix info
  assume h: "files (path_join [root, ''package.json'']) = Some contents
          \<and> JSON_parse w contents = Inr packageJson \<and> truthy packageJson"
    and ok: "getInfo w files root inConfigPath = Inr info"
  have "packageJsonInfo packageJson = Inr info"
    using assms h ok by (simp add: getInfo_no_tauri getPackageJson_present)
  then show "\<exists>s. js_or (get_prop_opt packageJson ''displayName'')
                           (get_prop_opt packageJson ''name'') = JStr s
                    \<and> name info = JStr (replace_spaces s)"
    using h by (auto simp: packageJsonInfo_truthy replaceSpacesOf_Inr split: sum.splits)
next
  assume "files (path_join [root, ''package.json'']) = Some contents
          \<and> JSON_parse w contents = Inr packageJson \<and> \<not> truthy packageJson"
  then show "getInfo w files root inConfigPath =
              Inr \<lparr>tauriPath = None, name = JStr ''app'', version = JStr ''0.1.0'',
                   wixLanguage = JStr ''en-US''\<rparr>"
    using assms by (simp add: getInfo_no_tauri getPackageJson_present packageJsonInfo_falsy)
next
  assume "files (path_join [root, ''package.json'']) = None"
  then show "getInfo w files root inConfigPath =
              Inr \<lparr>tauriPath = None, name = JStr ''app'', version = JStr ''0.1.0'',
                   wixLanguage = JStr ''en-US''\<rparr>"
    using assms by (simp add: getInfo_no_tauri getPackageJson_absent packageJsonInfo_null)
qed

text \<open>
  Four runs without a native project: a manifest object with no name throws, a manifest
  with a \<^verbatim>\<open>displayName\<close> gives its name, a manifest file holding \<^verbatim>\<open>null\<close> and a missing
  manifest file give the default.
\<close>

theorem getInfo_nameless_manifest_witness:
  "ex_files_anonymous ''/repo/package.json'' = Some ex_anonymous_text
   \<and> JSON_parse ex_sys ex_anonymous_text = Inr (JObj [(''private'', JBool True)])
   \<and> getInfo ex_sys ex_files_anonymous ''/repo'' None = Inl (TypeError ''replace'')
   \<and> JSON_parse ex_sys ex_manifest_text = Inr (JObj ex_manifest)
   \<and> name \<lparr>tauriPath = None, name = JStr ''My-App'', version = JStr ''1.0.0'',
            wixLanguage = JStr ''en-US''\<rparr> = JStr (replace_spaces ''My App'')
   \<and> JSON_parse ex_sys ex_null_text = Inr JNull
   \<and> getInfo ex_sys ex_files_null ''/repo'' None
       = Inr \<lparr>tauriPath = None, name = JStr ''app'', version = JStr ''0.1.0'',
              wixLanguage = JStr ''en-US''\<rparr>
   \<and> getInfo ex_sys Map.empty ''/repo'' None
       = Inr \<lparr>tauriPath = None, name = JStr ''app'', version = JStr ''0.1.0'',
              wixLanguage = JStr ''en-US''\<rparr>"
proof -
  have t1: "getTauriDir ex_sys ex_files_anonymous ''/repo'' = None" by code_simp
  have f1: "ex_files_anonymous (path_join [''/repo'', ''package.json'']) = Some ex_anonymous_text"
    by (simp add: ex_files_anonymous_def ex_paths)
  have p1: "JSON_parse ex_sys ex_anonymous_text = Inr (JObj ex_anonymous)" by code_simp
  have m1: "truthy (JObj ex_anonymous)
            \<and> get_prop_opt (JObj ex_anonymous) ''displayName'' = JUndefined
            \<and> get_prop_opt (JObj ex_anonymous) ''name'' = JUndefined"
    by (simp add: ex_anonymous_def)
  have a: "getInfo ex_sys ex_files_anonymous ''/repo'' None = Inl (TypeError ''replace'')"
    using getInfo_nameless_manifest[OF t1, of ex_anonymous_text "JObj ex_anonymous" None]
          f1 p1 m1
    by blast
  have t2: "getTauriDir ex_sys ex_files_manifest ''/repo'' = None" by code_simp
  have f2: "ex_files_manifest (path_join [''/repo'', ''package.json'']) = Some ex_manifest_text"
    by (simp add: ex_files_manifest_def ex_paths)
  have p2: "JSON_parse ex_sys ex_manifest_text = Inr (JObj ex_manifest)" by code_simp
  have g2: "getInfo ex_sys ex_files_manifest ''/repo'' None
       = Inr \<lparr>tauriPath = None, name = JStr ''My-App'', version = JStr ''1.0.0'',
              wixLanguage = JStr ''en-US''\<rparr>"
    by code_simp
  have j2: "js_or (get_prop_opt (JObj ex_manifest) ''displayName'')
                  (get_prop_opt (JObj ex_manifest) ''name'') = JStr ''My App''"
    by (simp add: js_or_def ex_manifest_def)
  have "\<exists>s. js_or (get_prop_opt (JObj ex_manifest) ''displayName'')
                  (get_prop_opt (JObj ex_manifest) ''name'') = JStr s
            \<and> name \<lparr>tauriPath = None, name = JStr ''My-App'', version = JStr ''1.0.0'',
                     wixLanguage = JStr ''en-US''\<rparr> = JStr (replace_spaces s)"
    using getInfo_nameless_manifest[OF t2, of ex_manifest_text "JObj ex_manifest" None]
          f2 p2 g2
    by simp
  then have b: "name \<lparr>tauriPath = None, name = JStr ''My-App'', version = JStr ''1.0.0'',
            wixLanguage = JStr ''en-US''\<rparr> = JStr (replace_spaces ''My App'')"
    using j2 by auto
  have t3: "getTauriDir ex_sys ex_files_null ''/repo'' = None" by code_simp
  have f3: "ex_files_null (path_join [''/repo'', ''package.json'']) = Some ex_null_text"
    by (simp add: ex_files_null_def ex_paths)
  have p3: "JSON_parse ex_sys ex_null_text = Inr JNull" by code_simp
  have c: "getInfo ex_sys ex_files_null ''/repo'' None
       = Inr \<lparr>tauriPath = None, name = JStr ''app'', version = JStr ''0.1.0'',
              wixLanguage = JStr ''en-US''\<rparr>"
    using getInfo_nameless_manifest[OF t3, of ex_null_text JNull None] f3 p3 by simp
  have t4: "getTauriDir ex_sys Map.empty ''/repo'' = None" by code_simp
  have d: "getInfo ex_sys Map.empty ''/repo'' None
       = Inr \<lparr>tauriPath = None, name = JStr ''app'', version = JStr ''0.1.0'',
              wixLanguage = JStr ''en-US''\<rparr>"
    using getInfo_nameless_manifest[OF t4, of "[]" JNull None] by simp
  show ?thesis
    using a b c d f1 p1 p2 p3 by (simp add: ex_paths ex_anonymous_def)
qed

section \<open>The rewritten configuration\<close>

lemma digit_char: "d < 10 \<Longrightarrow> digits ! d \<in> set digits"
proof -
  assume "d < 10"
  moreover have "length digits = 10" by (simp add: digits_def)
  ultimately show ?thesis by (metis nth_mem)
qed

lemma show_nat_digits: "set (show_nat n) \<subseteq> set digits"
proof (induction n rule: show_nat.induct)
  case (1 n)
  show ?case
  proof (cases "n < 10")
    case True
    then show ?thesis using digit_char[of n] by (subst show_nat.simps) simp
  next
    case False
    then show ?thesis
      using 1 digit_char[of "n mod 10"] by (subst show_nat.simps) simp
  qed
qed

lemma show_nat_nonempty: "show_nat n \<noteq> []"
  by (subst show_nat.simps) simp

lemma fst_indexed: "fst ` set (indexed xs) = show_nat ` {0..<length xs}"
proof -
  have "map fst (indexed xs) = map show_nat [0..<length xs]"
    unfolding indexed_def by (simp add: map_fst_zip)
  then have "set (map fst (indexed xs)) = set (map show_nat [0..<length xs])" by simp
  then show ?thesis by simp
qed

lemma map_of_indexed: "\<not> index_key k \<Longrightarrow> map_of (indexed xs) k = None"
proof -
  assume nk: "\<not> index_key k"
  have "k \<notin> show_nat ` {0..<length xs}"
    using nk show_nat_digits show_nat_nonempty by (auto simp: index_key_def)
  then show ?thesis by (simp add: map_of_eq_None_iff fst_indexed)
qed

text \<open>A spread copies every property that is not an index as member access reads it.\<close>

lemma spread_lookup:
  "\<not> index_key k \<Longrightarrow>
   (case map_of (spread v) k of Some x \<Rightarrow> x | None \<Rightarrow> JUndefined) = get_prop_opt v k"
  by (cases v) (simp_all add: map_of_indexed)

lemma not_index_windows: "\<not> index_key ''windows''"
  by (simp add: index_key_def digits_def)

lemma mergeConfig_object:
  assumes "supplied bundleId = Some b"
  shows "mergeConfig packageJson info bundleId (JObj kvs) = Inr merged \<Longrightarrow>
     get_prop_opt merged ''tauri'' =
       JObj (AList.update ''bundle''
              (JObj (AList.update ''identifier'' (JStr b)
                 (spread (get_prop_opt (get_prop_opt (JObj kvs) ''tauri'') ''bundle''))))
              (spread (get_prop_opt (JObj kvs) ''tauri'')))"
  using assms
  by (auto simp: mergeConfig_def Let_def update_conv' split: if_splits option.splits)

lemma mergeConfig_other:
  assumes "mergeConfig packageJson info bundleId config = Inr merged" "\<forall>kvs. config \<noteq> JObj kvs"
  shows "merged = config"
  using assms
  by (cases config) (auto simp: mergeConfig_def Let_def split: if_splits option.splits sum.splits)

text \<open>
  Claim C8. When \<^verbatim>\<open>bundleIdentifier\<close> is supplied, the configuration that \<^verbatim>\<open>initProject\<close>
  writes back has the same \<^verbatim>\<open>tauri.bundle.windows.wix.language\<close> as the configuration it
  read, for every configuration. For a configuration object the own properties of the
  new \<^verbatim>\<open>tauri.bundle\<close> are those of the old one with \<^verbatim>\<open>identifier\<close> set to the option: the
  update is a merge, and no other sub-field of the bundle changes.
\<close>

theorem mergeConfig_identifier_only:
  assumes "mergeConfig packageJson info bundleId config = Inr merged"
    and "supplied bundleId = Some b"
  shows "bundleWixLanguage (get_prop_opt merged ''tauri'')
           = bundleWixLanguage (get_prop_opt config ''tauri'')
       \<and> (\<forall>kvs. config = JObj kvs \<longrightarrow>
            map_of (spread (get_prop_opt (get_prop_opt merged ''tauri'') ''bundle''))
              = (map_of (spread (get_prop_opt (get_prop_opt config ''tauri'') ''bundle'')))
                  (''identifier'' \<mapsto> JStr b))"
proof (cases "\<exists>kvs. config = JObj kvs")
  case True
  then obtain kvs where c: "config = JObj kvs" by blast
  let ?t = "get_prop_opt (JObj kvs) ''tauri''"
  let ?b = "get_prop_opt ?t ''bundle''"
  have m: "get_prop_opt merged ''tauri'' =
       JObj (AList.update ''bundle'' (JObj (AList.update ''identifier'' (JStr b) (spread ?b)))
              (spread ?t))"
    using mergeConfig_object[OF assms(2)] assms(1) c by simp
  have nb: "get_prop_opt (get_prop_opt merged ''tauri'') ''bundle''
      = JObj (AList.update ''identifier'' (JStr b) (spread ?b))"
    unfolding m by (simp add: update_conv')
  have w: "get_prop_opt (get_prop_opt (get_prop_opt merged ''tauri'') ''bundle'') ''windows''
      = get_prop_opt ?b ''windows''"
    unfolding nb using spread_lookup[OF not_index_windows, of ?b] by (simp add: update_conv')
  show ?thesis
    using w nb c by (simp add: bundleWixLanguage_def update_conv')
next
  case False
  then have "merged = config" using mergeConfig_other[OF assms(1)] by blast
  with False show ?thesis by simp
qed

theorem mergeConfig_identifier_only_witness:
  "mergeConfig JNull ex_info (Some ''com.example.app'') ex_conf = Inr ex_merged
   \<and> bundleWixLanguage (get_prop_opt ex_conf ''tauri'') = JStr ''fr-FR''
   \<and> bundleWixLanguage (get_prop_opt ex_merged ''tauri'') = JStr ''fr-FR''
   \<and> get_prop_opt (get_prop_opt (get_prop_opt ex_merged ''tauri'') ''bundle'') ''identifier''
       = JStr ''com.example.app''"
proof -
  have h1: "mergeConfig JNull ex_info (Some ''com.example.app'') ex_conf = Inr ex_merged"
    by code_simp
  have h2: "supplied (Some ''com.example.app'') = Some ''com.example.app''" by simp
  have l: "bundleWixLanguage (get_prop_opt ex_conf ''tauri'') = JStr ''fr-FR''" by code_simp
  have i: "get_prop_opt (get_prop_opt (get_prop_opt ex_merged ''tauri'') ''bundle'') ''identifier''
       = JStr ''com.example.app''" by code_simp
  show ?thesis
    using mergeConfig_identifier_only[OF h1 h2] h1 l i by simp
qed

text \<open>
  What a run of \<^verbatim>\<open>initProject\<close> without an icon leaves: the files after the \<^verbatim>\<open>init\<close>
  command, with \<^verbatim>\<open>tauri.conf.json\<close> overwritten by the serialised merged configuration.
\<close>

lemma initProject_writes_merged:
  assumes "getPackageJson w files root = Inr packageJson"
    and "getTauriDir w files root = Some tauriDir"
    and "execCommand w (runnerCommand runner)
           (map JStr (runnerArgs runner) @
            [JStr ''init'', JStr ''--ci'', JStr ''--app-name'', name info]) root files
         = (None, files1)"
    and "getConfig w files1 (path_join [tauriDir, ''tauri.conf.json'']) = Inr config"
    and "mergeConfig packageJson info (bundleIdentifier options) config = Inr merged"
    and "supplied (iconPath options) = None"
  shows "initProject w files root runner info options =
           (Inr \<lparr>app_tauriPath = tauriDir, app_runner = runner, app_name = name info,
                  app_version = version info, app_wixLanguage = wixLanguage info\<rparr>,
            files1(path_join [tauriDir, ''tauri.conf.json''] \<mapsto> JSON_stringify w merged))"
  using assms by (simp add: initProject_def Let_def)

text \<open>
  Claim C9. \<^verbatim>\<open>initProject\<close> writes the merged configuration before it runs the icon
  command, and restores nothing when that command fails: the run ends with the command's
  error, and the files are those the failed command left, starting from the files with
  the rewritten \<^verbatim>\<open>tauri.conf.json\<close>. Unless the command itself touched that file, it holds
  the merged configuration.
\<close>

theorem initProject_no_rollback:
  assumes "getPackageJson w files root = Inr packageJson"
    and "getTauriDir w files root = Some tauriDir"
    and "execCommand w (runnerCommand runner)
           (map JStr (runnerArgs runner) @
            [JStr ''init'', JStr ''--ci'', JStr ''--app-name'', name info]) root files
         = (None, files1)"
    and "getConfig w files1 (path_join [tauriDir, ''tauri.conf.json'']) = Inr config"
    and "mergeConfig packageJson info (bundleIdentifier options) config = Inr merged"
    and "supplied (iconPath options) = Some icon"
    and "execCommand w (runnerCommand runner)
           (map JStr (runnerArgs runner) @ [JStr ''icon'', JStr (path_join [root, icon])]) root
           (files1(path_join [tauriDir, ''tauri.conf.json''] \<mapsto> JSON_stringify w merged))
         = (Some e, files3)"
  shows "initProject w files root runner info options = (Inl e, files3)
       \<and> (files3 (path_join [tauriDir, ''tauri.conf.json''])
             = (files1(path_join [tauriDir, ''tauri.conf.json''] \<mapsto> JSON_stringify w merged))
                 (path_join [tauriDir, ''tauri.conf.json'']) \<longrightarrow>
           files3 (path_join [tauriDir, ''tauri.conf.json'']) = Some (JSON_stringify w merged))"
  using assms by (simp add: initProject_def Let_def)

theorem initProject_no_rollback_witness:
  "initProject ex_sys ex_files_native ''/repo'' ex_runner ex_info ex_options
     = (Inl (CommandFailed 1),
        ex_files_native(''/repo/src-tauri/tauri.conf.json'' \<mapsto> ex_merged_text))
   \<and> ex_files_native ''/repo/src-tauri/tauri.conf.json'' = Some ex_conf_text"
proof -
  let ?conf = "path_join [''/repo/src-tauri'', ''tauri.conf.json'']"
  have h1: "getPackageJson ex_sys ex_files_native ''/repo'' = Inr JNull" by code_simp
  have h2: "getTauriDir ex_sys ex_files_native ''/repo'' = Some ''/repo/src-tauri''"
    by code_simp
  have c: "ex_files_native ''/repo/src-tauri/tauri.conf.json'' = Some ex_conf_text"
    by (simp add: ex_files_native_def)
  have h3: "execCommand ex_sys (runnerCommand ex_runner)
           (map JStr (runnerArgs ex_runner) @
            [JStr ''init'', JStr ''--ci'', JStr ''--app-name'', name ex_info]) ''/repo''
           ex_files_native
         = (None, ex_files_native)"
    using c by (simp add: execCommand_def ex_sys_def ex_execa_def ex_paths)
  have h4: "getConfig ex_sys ex_files_native ?conf = Inr ex_conf" by code_simp
  have h5: "mergeConfig JNull ex_info (bundleIdentifier ex_options) ex_conf = Inr ex_merged"
    by code_simp
  have h6: "supplied (iconPath ex_options) = Some ''icon.png''"
    by (simp add: ex_options_def)
  have s: "JSON_stringify ex_sys ex_merged = ex_merged_text" by code_simp
  have h7: "execCommand ex_sys (runnerCommand ex_runner)
           (map JStr (runnerArgs ex_runner) @
            [JStr ''icon'', JStr (path_join [''/repo'', ''icon.png''])]) ''/repo''
           (ex_files_native(?conf \<mapsto> JSON_stringify ex_sys ex_merged))
         = (Some (CommandFailed 1), ex_files_native(?conf \<mapsto> JSON_stringify ex_sys ex_merged))"
    by (simp add: execCommand_def ex_sys_def ex_execa_def ex_runner_def ex_paths)
  show ?thesis
    using initProject_no_rollback[OF h1 h2 h3 h4 h5 h6 h7] c s
    by (simp add: ex_paths)
qed

section \<open>The native-project directory after \<^verbatim>\<open>init\<close>\<close>

text \<open>
  \<^verbatim>\<open>initProject\<close> calls \<^verbatim>\<open>getTauriDir\<close> before it runs the \<^verbatim>\<open>init\<close> command and tests the
  result after it: when there was no native project before, the run ends with exit
  status 1 whatever the command has created.
\<close>

lemma initProject_stale:
  assumes "getPackageJson w files root = Inr packageJson"
    and "getTauriDir w files root = None"
    and "execCommand w (runnerCommand runner)
           (map JStr (runnerArgs runner) @
            [JStr ''init'', JStr ''--ci'', JStr ''--app-name'', name info]) root files
         = (None, files1)"
  shows "initProject w files root runner info options = (Inl (ProcessExit 1), files1)"
  using assms by (simp add: initProject_def Let_def)

text \<open>
  Claim C2 at a failing input. The repository \<^verbatim>\<open>/repo\<close> is empty, and the \<^verbatim>\<open>init\<close> command
  creates \<^verbatim>\<open>/repo/src-tauri/tauri.conf.json\<close>. \<^verbatim>\<open>initProject\<close> ends with exit status 1, although
  \<^verbatim>\<open>getTauriDir\<close> finds the directory \<^verbatim>\<open>/repo/src-tauri\<close> in the files that the run leaves.
\<close>

theorem initProject_stale_tauri_dir:
  "getTauriDir ex_sys Map.empty ''/repo'' = None
   \<and> fst (initProject ex_sys Map.empty ''/repo'' ex_runner ex_info_default ex_options)
       = Inl (ProcessExit 1)
   \<and> getTauriDir ex_sys
       (snd (initProject ex_sys Map.empty ''/repo'' ex_runner ex_info_default ex_options))
       ''/repo'' = Some ''/repo/src-tauri''"
  by code_simp

section \<open>Artifact naming\<close>


















end
